theory Spec2Isabelle
  imports Complex_Main
begin

section \<open>Data model (the interfaces of the types module)\<close>

text \<open>
  A time value is the number of milliseconds since the epoch, kept here as an unbounded
  integer; so are the other integers (numbers and big integers).  Optional fields are
  \<open>option\<close>s.  Field names follow the source; a prefix is added where two interfaces
  share a field name (\<open>id\<close>, \<open>isActive\<close>).

  The interfaces type their dates as \<open>Date\<close>, but the types are erased at run time
  and a field of that type holds one of two things: a \<open>Date\<close> object, when the
  service has just built the value (\<open>new Date()\<close>), or, when the value was read from
  the store, the string that \<open>JSON.stringify\<close> wrote for the \<open>Date\<close>
  (\<open>JSON.parse\<close> gives a string back as a string).  \<open>DateObject t\<close> is the
  \<open>Date\<close> with time value \<open>t\<close> and \<open>DateString t\<close> is the ISO string of \<open>t\<close>.
\<close>

type_synonym date = int

datatype date_value = DateObject date | DateString date

text \<open>
  Only a \<open>Date\<close> object has the method \<open>getTime\<close>: the call on a string is a
  \<open>TypeError\<close> (\<open>None\<close>).  The comparison \<open>d > new Date()\<close> turns both sides
  into numbers, a \<open>Date\<close> object into its time value and an ISO string into
  not-a-number, with which every comparison is false.  \<open>JSON.stringify\<close> writes a
  \<open>Date\<close> object as its ISO string and a string as itself.
\<close>

fun getTime :: "date_value \<Rightarrow> date option" where
  "getTime (DateObject t) = Some t"
| "getTime (DateString t) = None"

fun greaterThanDate :: "date_value \<Rightarrow> date \<Rightarrow> bool" where
  "greaterThanDate (DateObject t) now = (t > now)"
| "greaterThanDate (DateString t) now = False"

fun stringifyDate :: "date_value \<Rightarrow> date_value" where
  "stringifyDate (DateObject t) = DateString t"
| "stringifyDate (DateString t) = DateString t"

datatype role = RoleUser | RoleAdmin

datatype whitelist_status = Approved | Pending | Rejected

record subscription =
  tierId :: "string option"
  startDate :: "date_value option"
  endDate :: "date_value option"
  isActive :: bool

record user =
  user_id :: string
  walletAddress :: string
  email :: "string option"
  role :: role
  whitelistStatus :: whitelist_status
  subscription :: "subscription option"
  createdAt :: date_value
  updatedAt :: "date_value option"
  lastLogin :: "date_value option"

record pricing =
  singlePriceUsd :: string
  isFreeWithSubscription :: bool

record video =
  video_id :: string
  title :: string
  video_type :: string
  pricing :: pricing
  mediaUrls_video :: string
  video_isActive :: bool

record subscription_tier =
  tier_id :: string
  tier_name :: string
  priceUsd :: string
  durationDays :: int
  tier_isActive :: bool

datatype access_type = Purchase | Subscription | Free

datatype payment_token = USDC | ETH

record user_video_access =
  access_id :: string
  userId :: string
  videoId :: string
  accessType :: access_type
  transactionHash :: "string option"
  purchaseDate :: "date_value option"
  paymentToken :: "payment_token option"
  amountPaid :: "string option"
  watchHistory :: "(date_value \<times> int \<times> bool) list"
  isFavorite :: bool

section \<open>The tagged-attribute store (GolemDBService and its client)\<close>

text \<open>
  The client of the external store keeps entities: a payload (the JSON of one of the
  interfaces above) tagged with string annotations.  Every creation site of the service
  computes the annotations from the payload it stores, so an entity is modelled by its
  payload and \<open>stringAnnotations\<close> recomputes the tags the creation site attaches
  (the numeric annotations are never queried and are left out).  A query is the
  conjunction of annotation equalities the service writes into its query string.
  Both client calls may throw; \<open>queryError\<close> and \<open>createError\<close> say when, with the
  message of the error.  Entities are kept in creation order and a query returns the
  matching ones in that order; no theorem below depends on the order.

  The bytes of an entity are the JSON text of the payload the service handed to
  \<open>encodeData\<close> (\<open>JSON.stringify\<close>); an entity of the model keeps that payload in
  place of the bytes.  \<open>decodeData\<close> (\<open>JSON.parse\<close>) is what the service gets
  back: the payload with every \<open>Date\<close> replaced by its string.
\<close>

datatype entity_data =
    UserData user
  | VideoData video
  | TierData subscription_tier
  | AccessData user_video_access

definition decodeSubscription :: "subscription \<Rightarrow> subscription" where
  "decodeSubscription s =
     s\<lparr>startDate := map_option stringifyDate (startDate s),
       endDate := map_option stringifyDate (endDate s)\<rparr>"

definition decodeUser :: "user \<Rightarrow> user" where
  "decodeUser u =
     u\<lparr>subscription := map_option decodeSubscription (subscription u),
       createdAt := stringifyDate (createdAt u),
       updatedAt := map_option stringifyDate (updatedAt u),
       lastLogin := map_option stringifyDate (lastLogin u)\<rparr>"

definition decodeAccess :: "user_video_access \<Rightarrow> user_video_access" where
  "decodeAccess a =
     a\<lparr>purchaseDate := map_option stringifyDate (purchaseDate a),
       watchHistory :=
         map (\<lambda>(watchedAt, progressSeconds, completed).
                (stringifyDate watchedAt, progressSeconds, completed))
           (watchHistory a)\<rparr>"

fun decodeData :: "entity_data \<Rightarrow> entity_data" where
  "decodeData (UserData u) = UserData (decodeUser u)"
| "decodeData (VideoData v) = VideoData v"
| "decodeData (TierData t) = TierData t"
| "decodeData (AccessData a) = AccessData (decodeAccess a)"

type_synonym query = "(string \<times> string) list"

definition boolToString :: "bool \<Rightarrow> string" where
  "boolToString b = (if b then ''true'' else ''false'')"

fun accessTypeString :: "access_type \<Rightarrow> string" where
  "accessTypeString Purchase = ''purchase''"
| "accessTypeString Subscription = ''subscription''"
| "accessTypeString Free = ''free''"

fun stringAnnotations :: "entity_data \<Rightarrow> (string \<times> string) list" where
  "stringAnnotations (UserData u) =
     [(''type'', ''user''), (''id'', user_id u), (''walletAddress'', walletAddress u)]"
| "stringAnnotations (VideoData v) =
     [(''type'', ''video''), (''id'', video_id v),
      (''isActive'', boolToString (video_isActive v)), (''title'', title v),
      (''typeCategory'', video_type v)]"
| "stringAnnotations (TierData t) =
     [(''type'', ''subscription_tier''), (''id'', tier_id t),
      (''isActive'', boolToString (tier_isActive t))]"
| "stringAnnotations (AccessData a) =
     [(''type'', ''user_video_access''), (''id'', access_id a), (''userId'', userId a),
      (''videoId'', videoId a), (''accessType'', accessTypeString (accessType a))]"

record golem_db =
  entities :: "entity_data list"
  queryError :: "query \<Rightarrow> string option"
  createError :: "string option"

definition matches :: "query \<Rightarrow> entity_data \<Rightarrow> bool" where
  "matches q e = (\<forall>kv \<in> set q. kv \<in> set (stringAnnotations e))"

definition queryEntities :: "golem_db \<Rightarrow> query \<Rightarrow> string + entity_data list" where
  "queryEntities db q =
     (case queryError db q of
        Some msg \<Rightarrow> Inl msg
      | None \<Rightarrow> Inr (filter (matches q) (entities db)))"

definition createEntities :: "golem_db \<Rightarrow> entity_data list \<Rightarrow> string + golem_db" where
  "createEntities db creates =
     (case createError db of
        Some msg \<Rightarrow> Inl msg
      | None \<Rightarrow> Inr (db\<lparr>entities := entities db @ creates\<rparr>))"

subsection \<open>Lookups: the first matching entity, null on no match or on a store error\<close>

definition userQueryByWallet :: "string \<Rightarrow> query" where
  "userQueryByWallet w = [(''type'', ''user''), (''walletAddress'', w)]"

definition userQueryById :: "string \<Rightarrow> query" where
  "userQueryById i = [(''type'', ''user''), (''id'', i)]"

definition videoQueryById :: "string \<Rightarrow> query" where
  "videoQueryById i = [(''type'', ''video''), (''id'', i)]"

definition tierQueryById :: "string \<Rightarrow> query" where
  "tierQueryById i = [(''type'', ''subscription_tier''), (''id'', i)]"

definition accessQuery :: "string \<Rightarrow> string \<Rightarrow> query" where
  "accessQuery uid vid =
     [(''type'', ''user_video_access''), (''userId'', uid), (''videoId'', vid)]"

definition findUserByWallet :: "golem_db \<Rightarrow> string \<Rightarrow> user option" where
  "findUserByWallet db w =
     (case queryEntities db (userQueryByWallet w) of
        Inl err \<Rightarrow> None
      | Inr [] \<Rightarrow> None
      | Inr (e # rest) \<Rightarrow> (case decodeData e of UserData u \<Rightarrow> Some u | _ \<Rightarrow> None))"

definition getUserById :: "golem_db \<Rightarrow> string \<Rightarrow> user option" where
  "getUserById db i =
     (case queryEntities db (userQueryById i) of
        Inl err \<Rightarrow> None
      | Inr [] \<Rightarrow> None
      | Inr (e # rest) \<Rightarrow> (case decodeData e of UserData u \<Rightarrow> Some u | _ \<Rightarrow> None))"

definition getVideoById :: "golem_db \<Rightarrow> string \<Rightarrow> video option" where
  "getVideoById db i =
     (case queryEntities db (videoQueryById i) of
        Inl err \<Rightarrow> None
      | Inr [] \<Rightarrow> None
      | Inr (e # rest) \<Rightarrow> (case decodeData e of VideoData v \<Rightarrow> Some v | _ \<Rightarrow> None))"

definition getSubscriptionTierById :: "golem_db \<Rightarrow> string \<Rightarrow> subscription_tier option" where
  "getSubscriptionTierById db i =
     (case queryEntities db (tierQueryById i) of
        Inl err \<Rightarrow> None
      | Inr [] \<Rightarrow> None
      | Inr (e # rest) \<Rightarrow> (case decodeData e of TierData t \<Rightarrow> Some t | _ \<Rightarrow> None))"

subsection \<open>Writes: every write appends a new entity\<close>

text \<open>
  \<open>updateUser\<close> merges the updates into the user found by id and stamps \<open>updatedAt\<close>
  with the clock; the partial user of the source is the function \<open>updates\<close> that
  overwrites the fields it names.  Building the entity to create, it calls
  \<open>getTime\<close> on \<open>createdAt\<close> of the merged user for a numeric annotation.  Unless
  the updates bring a \<open>createdAt\<close> of their own, that field is the one of the user
  read from the store, a string: the call throws a \<open>TypeError\<close> and nothing is
  created.  Neither that error nor an error of the create call is caught here: it
  reaches the caller (\<open>Inl\<close>, with the message).  (\<open>updatedAt\<close>, whose \<open>getTime\<close>
  is called next, is the \<open>Date\<close> just made.)
\<close>

definition updateUser ::
  "golem_db \<Rightarrow> string \<Rightarrow> (user \<Rightarrow> user) \<Rightarrow> date \<Rightarrow> string + (golem_db \<times> user option)" where
  "updateUser db i updates now =
     (case getUserById db i of
        None \<Rightarrow> Inr (db, None)
      | Some existingUser \<Rightarrow>
          (let updatedUser = (updates existingUser)\<lparr>updatedAt := Some (DateObject now)\<rparr>
           in case getTime (createdAt updatedUser) of
                None \<Rightarrow> Inl ''updatedUser.createdAt.getTime is not a function''
              | Some created \<Rightarrow>
                  (case createEntities db [UserData updatedUser] of
                     Inl msg \<Rightarrow> Inl msg
                   | Inr db' \<Rightarrow> Inr (db', Some updatedUser))))"

text \<open>
  \<open>recordUserVideoAccess\<close> calls \<open>getTime\<close> on the purchase date, if there is one,
  in the same way.
\<close>

definition recordUserVideoAccess ::
  "golem_db \<Rightarrow> string \<Rightarrow> user_video_access \<Rightarrow> string + (golem_db \<times> user_video_access)" where
  "recordUserVideoAccess db newId accessData =
     (let newAccess = accessData\<lparr>access_id := newId\<rparr>
      in case map_option getTime (purchaseDate newAccess) of
           Some None \<Rightarrow> Inl ''newAccess.purchaseDate?.getTime is not a function''
         | _ \<Rightarrow>
             (case createEntities db [AccessData newAccess] of
                Inl msg \<Rightarrow> Inl msg
              | Inr db' \<Rightarrow> Inr (db', newAccess)))"

subsection \<open>The access check\<close>

text \<open>
  An access record of the user for the video, or else the subscription of the user
  stored under the empty wallet address: active, with an end date, and the end date
  greater than the clock.
\<close>

definition checkUserVideoAccess :: "golem_db \<Rightarrow> date \<Rightarrow> string \<Rightarrow> string \<Rightarrow> bool" where
  "checkUserVideoAccess db now uid vid =
     (case queryEntities db (accessQuery uid vid) of
        Inl err \<Rightarrow> False
      | Inr found \<Rightarrow>
          if length found > 0 then True
          else (case findUserByWallet db '''' of
                  None \<Rightarrow> False
                | Some u \<Rightarrow>
                    (case subscription u of
                       None \<Rightarrow> False
                     | Some s \<Rightarrow>
                         if isActive s \<and> endDate s \<noteq> None
                            \<and> greaterThanDate (the (endDate s)) now
                         then True else False)))"

section \<open>JavaScript strings and numbers\<close>

text \<open>
  \<open>toLowerCase\<close> on the ASCII letters, which is all an address in hexadecimal has.
\<close>

definition toLowerChar :: "char \<Rightarrow> char" where
  "toLowerChar c =
     (let n = (of_char c :: nat) in if 65 \<le> n \<and> n \<le> 90 then char_of (n + 32) else c)"

definition toLowerCase :: "string \<Rightarrow> string" where
  "toLowerCase s = map toLowerChar s"

text \<open>
  A JavaScript number as the comparison sees it: not-a-number, an infinity, or a finite
  value (a double is a rational; the two zeros compare equal).  \<open>js_lt\<close> is the
  operator \<open><\<close>: false as soon as one side is not a number.
\<close>

datatype number = NaN | NegInfinity | Finite rat | PosInfinity

fun js_lt :: "number \<Rightarrow> number \<Rightarrow> bool" where
  "js_lt NaN y = False"
| "js_lt x NaN = False"
| "js_lt NegInfinity NegInfinity = False"
| "js_lt NegInfinity y = True"
| "js_lt (Finite a) NegInfinity = False"
| "js_lt (Finite a) (Finite b) = (a < b)"
| "js_lt (Finite a) PosInfinity = True"
| "js_lt PosInfinity y = False"

section \<open>Payment verification (BaseService)\<close>

text \<open>
  What the service gets from outside is collected in \<open>env\<close>: the provider's two
  lookups and the contract's \<open>decimals\<close> call (each may throw, \<open>Inl\<close> with the
  message; a lookup may also answer null), the log parser of the contract interface
  (throws, answers null, or gives the decoded event), the unit formatter of the
  library, \<open>parseFloat\<close>, the configured token contract address and store wallet,
  and the two calendar methods of \<open>Date\<close> the subscription purchase calls
  (\<open>getDate\<close>, the day of the month of a time value, and \<open>setDate\<close>, the time
  value after the day of the month is set), which both work in the time zone of the
  host.  The theorems hold for every \<open>env\<close>.  The gas figures of the transaction
  details, which the source turns into decimal strings, stay integers.
\<close>

record log =
  log_address :: string
  log_topics :: "string list"
  log_data :: string

record log_description =
  event_name :: string
  args_from :: string
  args_to :: string
  args_value :: int

record receipt =
  receipt_status :: "int option"
  receipt_logs :: "log list"
  blockNumber :: int
  gasUsed :: int
  gasPrice :: "int option"

record transaction_response =
  tx_to :: "string option"
  tx_from :: string
  tx_value :: int

record env =
  getTransactionReceipt :: "string \<Rightarrow> string + receipt option"
  getTransaction :: "string \<Rightarrow> string + transaction_response option"
  decimals :: "string + int"
  parseLog :: "log \<Rightarrow> string + log_description option"
  formatUnits :: "int \<Rightarrow> int \<Rightarrow> string"
  parseFloat :: "string \<Rightarrow> number"
  usdcAddress :: string
  storeWalletAddress :: string
  getDate :: "date \<Rightarrow> int"
  setDate :: "date \<Rightarrow> int \<Rightarrow> date"

record transaction_details =
  details_blockNumber :: int
  details_gasUsed :: int
  details_gasPrice :: "int option"

record payment_result =
  success :: bool
  amount :: string
  payer :: string
  transactionDetails :: transaction_details

text \<open>
  The errors thrown inside the \<open>try\<close> blocks, one constructor for each \<open>throw\<close>
  and one for an error of the provider, and the message each carries.
\<close>

datatype payment_error =
    TransactionNotFound
  | TransactionReceiptNotFound
  | TransactionFailed
  | NoUsdcTransferFound
  | UsdcTransferNotDirected
  | TransactionNotDirected
  | InsufficientPayment string string
  | ProviderError string

fun message :: "payment_error \<Rightarrow> string" where
  "message TransactionNotFound = ''Transaction not found''"
| "message TransactionReceiptNotFound = ''Transaction receipt not found''"
| "message TransactionFailed = ''Transaction failed''"
| "message NoUsdcTransferFound = ''No USDC transfer found in transaction''"
| "message UsdcTransferNotDirected = ''USDC transfer not directed to store wallet''"
| "message TransactionNotDirected = ''Transaction not directed to store wallet''"
| "message (InsufficientPayment expected got) =
     ''Insufficient payment: expected '' @ expected @ '', got '' @ got"
| "message (ProviderError msg) = msg"

text \<open>
  The transfer events of a receipt: the logs emitted by the token contract (addresses
  compared in lower case), each parsed, a log whose parsing throws or gives null
  dropped, and only events named Transfer kept.
\<close>

definition tryParseLog :: "env \<Rightarrow> log \<Rightarrow> log_description option" where
  "tryParseLog env l = (case parseLog env l of Inl err \<Rightarrow> None | Inr parsed \<Rightarrow> parsed)"

definition transferEvents :: "env \<Rightarrow> log list \<Rightarrow> log_description list" where
  "transferEvents env ls =
     map the
       (filter (\<lambda>event. event \<noteq> None \<and> event_name (the event) = ''Transfer'')
          (map (tryParseLog env)
             (filter (\<lambda>l. toLowerCase (log_address l) = toLowerCase (usdcAddress env)) ls)))"

definition detailsOf :: "receipt \<Rightarrow> transaction_details" where
  "detailsOf r =
     \<lparr>details_blockNumber = blockNumber r, details_gasUsed = gasUsed r,
      details_gasPrice = gasPrice r\<rparr>"

definition verifyUsdcPayment_try ::
  "env \<Rightarrow> string \<Rightarrow> string \<Rightarrow> string \<Rightarrow> payment_error + payment_result" where
  "verifyUsdcPayment_try env txHash expectedAmountUsd recipientAddress =
     (case getTransactionReceipt env txHash of
        Inl err \<Rightarrow> Inl (ProviderError err)
      | Inr None \<Rightarrow> Inl TransactionNotFound
      | Inr (Some r) \<Rightarrow>
          if receipt_status r \<noteq> Some 1 then Inl TransactionFailed
          else if length (transferEvents env (receipt_logs r)) = 0 then Inl NoUsdcTransferFound
          else
            (case find (\<lambda>event. toLowerCase (args_to event) = toLowerCase recipientAddress)
                    (transferEvents env (receipt_logs r)) of
               None \<Rightarrow> Inl UsdcTransferNotDirected
             | Some relevantEvent \<Rightarrow>
                 (case decimals env of
                    Inl err \<Rightarrow> Inl (ProviderError err)
                  | Inr dec \<Rightarrow>
                      (let amountUsd = formatUnits env (args_value relevantEvent) dec
                       in if js_lt (parseFloat env amountUsd) (parseFloat env expectedAmountUsd)
                          then Inl (InsufficientPayment expectedAmountUsd amountUsd)
                          else Inr \<lparr>success = True, amount = amountUsd,
                                    payer = args_from relevantEvent,
                                    transactionDetails = detailsOf r\<rparr>))))"

definition verifyEthPayment_try ::
  "env \<Rightarrow> string \<Rightarrow> string \<Rightarrow> string \<Rightarrow> payment_error + payment_result" where
  "verifyEthPayment_try env txHash expectedAmountEth recipientAddress =
     (case getTransaction env txHash of
        Inl err \<Rightarrow> Inl (ProviderError err)
      | Inr None \<Rightarrow> Inl TransactionNotFound
      | Inr (Some tx) \<Rightarrow>
          (case getTransactionReceipt env txHash of
             Inl err \<Rightarrow> Inl (ProviderError err)
           | Inr None \<Rightarrow> Inl TransactionReceiptNotFound
           | Inr (Some r) \<Rightarrow>
               if receipt_status r \<noteq> Some 1 then Inl TransactionFailed
               else if map_option toLowerCase (tx_to tx) \<noteq> Some (toLowerCase recipientAddress)
               then Inl TransactionNotDirected
               else
                 (let amountEth = formatUnits env (tx_value tx) 18
                  in if js_lt (parseFloat env amountEth) (parseFloat env expectedAmountEth)
                     then Inl (InsufficientPayment expectedAmountEth amountEth)
                     else Inr \<lparr>success = True, amount = amountEth, payer = tx_from tx,
                               transactionDetails = detailsOf r\<rparr>)))"

text \<open>
  The \<open>catch\<close> of both functions rethrows a new error whose message is the caught
  message behind a fixed prefix.
\<close>

definition rethrow :: "payment_error + payment_result \<Rightarrow> string + payment_result" where
  "rethrow r =
     (case r of
        Inl err \<Rightarrow> Inl (''Payment verification failed: '' @ message err)
      | Inr res \<Rightarrow> Inr res)"

definition verifyUsdcPayment :: "env \<Rightarrow> string \<Rightarrow> string \<Rightarrow> string \<Rightarrow> string + payment_result" where
  "verifyUsdcPayment env txHash expectedAmountUsd recipientAddress =
     rethrow (verifyUsdcPayment_try env txHash expectedAmountUsd recipientAddress)"

definition verifyEthPayment :: "env \<Rightarrow> string \<Rightarrow> string \<Rightarrow> string \<Rightarrow> string + payment_result" where
  "verifyEthPayment env txHash expectedAmountEth recipientAddress =
     rethrow (verifyEthPayment_try env txHash expectedAmountEth recipientAddress)"

section \<open>The request handlers (PurchaseController, VideoController)\<close>

text \<open>
  A request carries the principal the authentication middleware attached (if any) and
  the body and path fields the handlers read; a field that is absent is \<open>None\<close>, and
  \<open>falsy\<close> is the test \<open>!field\<close> on it.  A handler returns the store it leaves and
  the response it sends.  The places where a handler reads the clock (\<open>new Date()\<close>,
  \<open>Date.now()\<close>) are numbered in program order from 0, and \<open>clock k\<close> is the time
  the clock shows at place \<open>k\<close>; \<open>newId\<close> is the identifier \<open>generateId\<close> draws.
\<close>

record request =
  req_user :: "user option"
  body_transactionHash :: "string option"
  body_videoId :: "string option"
  body_tierId :: "string option"
  body_paymentToken :: "string option"
  params_id :: "string option"

datatype body =
    Error string
  | VideoPurchased string string string string transaction_details
  | SubscriptionPurchased string subscription string string string transaction_details
  | SubscriptionCancelled string subscription
  | VideoContent string date

record response =
  status :: nat
  body :: body

definition falsy :: "string option \<Rightarrow> bool" where
  "falsy field = (field = None \<or> field = Some [])"

definition tokenOf :: "string \<Rightarrow> payment_token" where
  "tokenOf t = (if t = ''USDC'' then USDC else ETH)"

text \<open>
  Both purchase handlers verify the payment with the function the token names.
\<close>

definition verifyPayment_try ::
  "env \<Rightarrow> string \<Rightarrow> string \<Rightarrow> string \<Rightarrow> payment_error + payment_result" where
  "verifyPayment_try env token txHash price =
     (if token = ''USDC''
      then verifyUsdcPayment_try env txHash price (storeWalletAddress env)
      else verifyEthPayment_try env txHash price (storeWalletAddress env))"

definition verifyPayment :: "env \<Rightarrow> string \<Rightarrow> string \<Rightarrow> string \<Rightarrow> string + payment_result" where
  "verifyPayment env token txHash price =
     (if token = ''USDC''
      then verifyUsdcPayment env txHash price (storeWalletAddress env)
      else verifyEthPayment env txHash price (storeWalletAddress env))"

text \<open>
  The video purchase, in two parts.  \<open>videoPurchaseResolve\<close> is the handler up to the
  video lookup: it gives the early response (\<open>Inl\<close>), or the user id, transaction
  hash, video id, token and video the rest works with.  \<open>verifyVideoPurchase\<close> is the
  whole handler: the payment verification, then the access check, then the record.
\<close>

definition videoPurchaseResolve ::
  "golem_db \<Rightarrow> request \<Rightarrow> response + (string \<times> string \<times> string \<times> string \<times> video)" where
  "videoPurchaseResolve db req =
     (if falsy (map_option user_id (req_user req))
      then Inl \<lparr>status = 401, body = Error ''Authentication required''\<rparr>
      else if falsy (body_transactionHash req) \<or> falsy (body_videoId req)
                \<or> falsy (body_paymentToken req)
      then Inl \<lparr>status = 400,
                body = Error ''transactionHash, videoId, and paymentToken are required''\<rparr>
      else if the (body_paymentToken req) \<noteq> ''USDC'' \<and> the (body_paymentToken req) \<noteq> ''ETH''
      then Inl \<lparr>status = 400, body = Error ''paymentToken must be either USDC or ETH''\<rparr>
      else
        (case findUserByWallet db (walletAddress (the (req_user req))) of
           None \<Rightarrow> Inl \<lparr>status = 403, body = Error ''User not whitelisted for purchases''\<rparr>
         | Some u \<Rightarrow>
             if whitelistStatus u \<noteq> Approved
             then Inl \<lparr>status = 403, body = Error ''User not whitelisted for purchases''\<rparr>
             else
               (case getVideoById db (the (body_videoId req)) of
                  None \<Rightarrow> Inl \<lparr>status = 404, body = Error ''Video not found''\<rparr>
                | Some v \<Rightarrow>
                    if \<not> video_isActive v
                    then Inl \<lparr>status = 400, body = Error ''Video is not available for purchase''\<rparr>
                    else Inr (user_id (the (req_user req)), the (body_transactionHash req),
                              the (body_videoId req), the (body_paymentToken req), v))))"

definition verifyVideoPurchase ::
  "env \<Rightarrow> golem_db \<Rightarrow> request \<Rightarrow> string \<Rightarrow> (nat \<Rightarrow> date) \<Rightarrow> golem_db \<times> response" where
  "verifyVideoPurchase env db req newId clock =
     (case videoPurchaseResolve db req of
        Inl early \<Rightarrow> (db, early)
      | Inr (uid, txHash, vid, token, v) \<Rightarrow>
          (case verifyPayment env token txHash (singlePriceUsd (pricing v)) of
             Inl msg \<Rightarrow>
               (db, \<lparr>status = 500, body = Error (''Purchase verification failed: '' @ msg)\<rparr>)
           | Inr paymentResult \<Rightarrow>
               if \<not> success paymentResult
               then (db, \<lparr>status = 400, body = Error ''Payment verification failed''\<rparr>)
               else if checkUserVideoAccess db (clock 0) uid vid
               then (db, \<lparr>status = 400, body = Error ''User already has access to this video''\<rparr>)
               else
                 (case recordUserVideoAccess db newId
                         \<lparr>access_id = [], userId = uid, videoId = vid, accessType = Purchase,
                          transactionHash = Some txHash,
                          purchaseDate = Some (DateObject (clock 1)),
                          paymentToken = Some (tokenOf token),
                          amountPaid = Some (amount paymentResult),
                          watchHistory = [], isFavorite = False\<rparr> of
                    Inl msg \<Rightarrow>
                      (db, \<lparr>status = 500,
                            body = Error (''Purchase verification failed: '' @ msg)\<rparr>)
                  | Inr (db', accessRecord) \<Rightarrow>
                      (db', \<lparr>status = 200,
                             body = VideoPurchased ''Purchase verified and access granted''
                                      (access_id accessRecord) (amount paymentResult) token
                                      (transactionDetails paymentResult)\<rparr>))))"

text \<open>
  The subscription purchase, in the same two parts.  The start date is the first
  reading of the clock; the end date is a second reading whose day of the month is set
  to the day of the month of the start date plus the duration of the tier.  The
  subscription is then handed to \<open>updateUser\<close>, next to an \<open>updatedAt\<close>.
\<close>

definition subscriptionPurchaseResolve ::
  "golem_db \<Rightarrow> request \<Rightarrow> response + (string \<times> string \<times> string \<times> subscription_tier)" where
  "subscriptionPurchaseResolve db req =
     (if falsy (map_option user_id (req_user req))
      then Inl \<lparr>status = 401, body = Error ''Authentication required''\<rparr>
      else if falsy (body_transactionHash req) \<or> falsy (body_tierId req)
                \<or> falsy (body_paymentToken req)
      then Inl \<lparr>status = 400,
                body = Error ''transactionHash, tierId, and paymentToken are required''\<rparr>
      else if the (body_paymentToken req) \<noteq> ''USDC'' \<and> the (body_paymentToken req) \<noteq> ''ETH''
      then Inl \<lparr>status = 400, body = Error ''paymentToken must be either USDC or ETH''\<rparr>
      else
        (case findUserByWallet db (walletAddress (the (req_user req))) of
           None \<Rightarrow> Inl \<lparr>status = 403, body = Error ''User not whitelisted for purchases''\<rparr>
         | Some u \<Rightarrow>
             if whitelistStatus u \<noteq> Approved
             then Inl \<lparr>status = 403, body = Error ''User not whitelisted for purchases''\<rparr>
             else
               (case getSubscriptionTierById db (the (body_tierId req)) of
                  None \<Rightarrow> Inl \<lparr>status = 404, body = Error ''Subscription tier not found''\<rparr>
                | Some tier \<Rightarrow>
                    if \<not> tier_isActive tier
                    then Inl \<lparr>status = 400, body = Error ''Subscription tier is not available''\<rparr>
                    else Inr (user_id (the (req_user req)), the (body_transactionHash req),
                              the (body_paymentToken req), tier))))"

definition newSubscription :: "env \<Rightarrow> subscription_tier \<Rightarrow> (nat \<Rightarrow> date) \<Rightarrow> subscription" where
  "newSubscription env tier clock =
     (let start = clock 0;
          finish = setDate env (clock 1) (getDate env start + durationDays tier)
      in \<lparr>tierId = Some (tier_id tier), startDate = Some (DateObject start),
          endDate = Some (DateObject finish), isActive = True\<rparr>)"

definition verifySubscriptionPurchase ::
  "env \<Rightarrow> golem_db \<Rightarrow> request \<Rightarrow> (nat \<Rightarrow> date) \<Rightarrow> golem_db \<times> response" where
  "verifySubscriptionPurchase env db req clock =
     (case subscriptionPurchaseResolve db req of
        Inl early \<Rightarrow> (db, early)
      | Inr (uid, txHash, token, tier) \<Rightarrow>
          (case verifyPayment env token txHash (priceUsd tier) of
             Inl msg \<Rightarrow>
               (db, \<lparr>status = 500, body = Error (''Subscription purchase failed: '' @ msg)\<rparr>)
           | Inr paymentResult \<Rightarrow>
               if \<not> success paymentResult
               then (db, \<lparr>status = 400, body = Error ''Payment verification failed''\<rparr>)
               else
                 (case updateUser db uid
                         (\<lambda>x. x\<lparr>subscription := Some (newSubscription env tier clock),
                                 updatedAt := Some (DateObject (clock 2))\<rparr>)
                         (clock 3) of
                    Inl msg \<Rightarrow>
                      (db, \<lparr>status = 500,
                            body = Error (''Subscription purchase failed: '' @ msg)\<rparr>)
                  | Inr (db', None) \<Rightarrow>
                      (db', \<lparr>status = 500, body = Error ''Failed to update user subscription''\<rparr>)
                  | Inr (db', Some updatedUser) \<Rightarrow>
                      (db', \<lparr>status = 200,
                             body = SubscriptionPurchased ''Subscription purchased successfully''
                                      (newSubscription env tier clock) (tier_name tier)
                                      (amount paymentResult) token
                                      (transactionDetails paymentResult)\<rparr>))))"

definition cancelSubscription ::
  "golem_db \<Rightarrow> request \<Rightarrow> (nat \<Rightarrow> date) \<Rightarrow> golem_db \<times> response" where
  "cancelSubscription db req clock =
     (if falsy (map_option user_id (req_user req))
      then (db, \<lparr>status = 401, body = Error ''Authentication required''\<rparr>)
      else
        (case findUserByWallet db (walletAddress (the (req_user req))) of
           None \<Rightarrow> (db, \<lparr>status = 404, body = Error ''User not found''\<rparr>)
         | Some u \<Rightarrow>
             if subscription u = None \<or> \<not> isActive (the (subscription u))
             then (db, \<lparr>status = 400, body = Error ''No active subscription found''\<rparr>)
             else
               (case updateUser db (user_id (the (req_user req)))
                       (\<lambda>x. x\<lparr>subscription := Some ((the (subscription u))\<lparr>isActive := False\<rparr>),
                               updatedAt := Some (DateObject (clock 0))\<rparr>)
                       (clock 1) of
                  Inl msg \<Rightarrow> (db, \<lparr>status = 500, body = Error ''Failed to cancel subscription''\<rparr>)
                | Inr (db', None) \<Rightarrow>
                    (db', \<lparr>status = 500, body = Error ''Failed to cancel subscription''\<rparr>)
                | Inr (db', Some updatedUser) \<Rightarrow>
                    (db', \<lparr>status = 200,
                           body = SubscriptionCancelled ''Subscription cancelled successfully''
                             \<lparr>tierId = (case subscription updatedUser of
                                          None \<Rightarrow> None | Some s \<Rightarrow> tierId s),
                              startDate = (case subscription updatedUser of
                                             None \<Rightarrow> None | Some s \<Rightarrow> startDate s),
                              endDate = (case subscription updatedUser of
                                           None \<Rightarrow> None | Some s \<Rightarrow> endDate s),
                              isActive = False\<rparr>\<rparr>))))"


section \<open>The library functions, for concrete runs\<close>

text \<open>
  The theorems take the library functions as they come in \<open>env\<close>.  The concrete
  runs below use these two for \<open>parseFloat\<close> and \<open>formatUnits\<close>: \<open>js_parseFloat\<close>, the longest prefix that is a
  decimal literal (after leading white space) rounded to the nearest double, ties to
  even, and \<open>ethers_formatUnits\<close>, the decimal string of the library: the whole part, a
  point, and the fraction with its trailing zeros removed down to one digit.
\<close>

definition isDigit :: "char \<Rightarrow> bool" where
  "isDigit c = (let n = (of_char c :: int) in 48 \<le> n \<and> n \<le> 57)"

definition isWhiteSpace :: "char \<Rightarrow> bool" where
  "isWhiteSpace c = (let n = (of_char c :: int) in n = 32 \<or> (9 \<le> n \<and> n \<le> 13))"

definition digitsValue :: "string \<Rightarrow> int" where
  "digitsValue ds = foldl (\<lambda>acc c. 10 * acc + ((of_char c :: int) - 48)) 0 ds"

function log2floor :: "int \<Rightarrow> int" where
  "log2floor n = (if n < 2 then 0 else 1 + log2floor (n div 2))"
  by pat_completeness auto
termination
  by (relation "measure nat") simp_all

definition pow2 :: "int \<Rightarrow> rat" where
  "pow2 k = (if 0 \<le> k then 2 ^ nat k else 1 / 2 ^ nat (- k))"

definition roundHalfEven :: "int \<Rightarrow> int \<Rightarrow> int" where
  "roundHalfEven n d =
     (let q = n div d; r = n mod d
      in if 2 * r < d then q else if d < 2 * r then q + 1
         else if even q then q else q + 1)"

text \<open>
  The double nearest to \<open>n / d\<close> (\<open>n \<ge> 0\<close>, \<open>d > 0\<close>): \<open>e\<close> is the binary exponent
  of the quotient, \<open>q\<close> the exponent of the last place of its 53-bit significand (not
  below that of the subnormal numbers), \<open>m\<close> the significand.
\<close>

definition toDouble :: "int \<Rightarrow> int \<Rightarrow> number" where
  "toDouble n d =
     (if n = 0 then Finite 0
      else
        (let k = log2floor n - log2floor d;
             e = (if (if 0 \<le> k then d * 2 ^ nat k \<le> n else d \<le> n * 2 ^ nat (- k))
                  then k else k - 1);
             q = max e (- 1022) - 52;
             m = (if 0 \<le> q then roundHalfEven n (d * 2 ^ nat q)
                  else roundHalfEven (n * 2 ^ nat (- q)) d)
         in if 971 < q \<or> (q = 971 \<and> 2 ^ 53 \<le> m) then PosInfinity
            else Finite (of_int m * pow2 q)))"

definition negateNumber :: "number \<Rightarrow> number" where
  "negateNumber x =
     (case x of NaN \<Rightarrow> NaN | NegInfinity \<Rightarrow> PosInfinity | PosInfinity \<Rightarrow> NegInfinity
      | Finite r \<Rightarrow> Finite (- r))"

definition exponentPart :: "string \<Rightarrow> int" where
  "exponentPart s =
     (case s of
        [] \<Rightarrow> 0
      | c # rest \<Rightarrow>
          if c = CHR ''e'' \<or> c = CHR ''E'' then
            (case rest of
               [] \<Rightarrow> 0
             | sign # ds \<Rightarrow>
                 if sign = CHR ''-'' then - digitsValue (takeWhile isDigit ds)
                 else if sign = CHR ''+'' then digitsValue (takeWhile isDigit ds)
                 else digitsValue (takeWhile isDigit rest))
          else 0)"

definition unsignedLiteral :: "string \<Rightarrow> number" where
  "unsignedLiteral s =
     (if take 8 s = ''Infinity'' then PosInfinity
      else
        (let whole = takeWhile isDigit s;
             r1 = dropWhile isDigit s;
             hasPoint = (r1 \<noteq> [] \<and> hd r1 = CHR ''.'');
             fraction = (if hasPoint then takeWhile isDigit (tl r1) else []);
             r2 = (if hasPoint then dropWhile isDigit (tl r1) else r1);
             ex = exponentPart r2 - int (length fraction);
             digits = digitsValue (whole @ fraction)
         in if whole = [] \<and> fraction = [] then NaN
            else if 0 \<le> ex then toDouble (digits * 10 ^ nat ex) 1
            else toDouble digits (10 ^ nat (- ex))))"

definition js_parseFloat :: "string \<Rightarrow> number" where
  "js_parseFloat s =
     (let t = dropWhile isWhiteSpace s
      in case t of
           [] \<Rightarrow> NaN
         | c # rest \<Rightarrow>
             if c = CHR ''-'' then negateNumber (unsignedLiteral rest)
             else if c = CHR ''+'' then unsignedLiteral rest
             else unsignedLiteral t)"

function intToString :: "int \<Rightarrow> string" where
  "intToString n =
     (if n < 0 then CHR ''-'' # intToString (- n)
      else if n < 10 then [char_of (48 + n)]
      else intToString (n div 10) @ [char_of (48 + n mod 10)])"
  by pat_completeness auto
termination
  by (relation "measure (\<lambda>n. if n < 0 then nat (1 - n) else nat n)") auto

text \<open>
  The formatter, for a value that is not negative and \<open>dec\<close> decimals.
\<close>

definition ethers_formatUnits :: "int \<Rightarrow> int \<Rightarrow> string" where
  "ethers_formatUnits v dec =
     (if dec \<le> 0 then intToString v
      else
        (let whole = intToString (v div 10 ^ nat dec);
             digits = intToString (v mod 10 ^ nat dec);
             padded = replicate (nat dec - length digits) (CHR ''0'') @ digits;
             trimmed = rev (dropWhile (\<lambda>c. c = CHR ''0'') (rev padded))
         in whole @ ''.'' @ (if trimmed = [] then ''0'' else trimmed)))"

subsection \<open>The calendar methods of Date on a host whose time zone is UTC\<close>

text \<open>
  The definitions are those of the language standard: the day number and the time
  within the day of a time value, the year, month and day of the month of a day number,
  \<open>MakeDay\<close> and \<open>MakeDate\<close>.  On a host in UTC local time is the time value
  itself.  Time values stay in the range of \<open>Date\<close> in the runs, so that nothing is
  clipped.
\<close>

definition msPerDay :: int where
  "msPerDay = 86400000"

definition Day :: "int \<Rightarrow> int" where
  "Day t = t div msPerDay"

definition TimeWithinDay :: "int \<Rightarrow> int" where
  "TimeWithinDay t = t mod msPerDay"

definition DayFromYear :: "int \<Rightarrow> int" where
  "DayFromYear y =
     365 * (y - 1970) + (y - 1969) div 4 - (y - 1901) div 100 + (y - 1601) div 400"

definition DaysInYear :: "int \<Rightarrow> int" where
  "DaysInYear y =
     (if y mod 4 \<noteq> 0 then 365 else if y mod 100 \<noteq> 0 then 366
      else if y mod 400 \<noteq> 0 then 365 else 366)"

function yearSearch :: "int \<Rightarrow> int \<Rightarrow> int" where
  "yearSearch y d = (if DayFromYear (y + 1) \<le> d then yearSearch (y + 1) d else y)"
  by pat_completeness auto
termination
proof (relation "measure (\<lambda>(y, d). nat (d - DayFromYear y))")
  show "wf (measure (\<lambda>(y, d). nat (d - DayFromYear y)))"
    by simp
next
  fix y d :: int
  assume le: "DayFromYear (y + 1) \<le> d"
  have a: "(y - 1969) div 4 \<le> (y + 1 - 1969) div 4"
    by (rule zdiv_mono1) simp_all
  have b: "(y + 1 - 1901) div 100 \<le> (y - 1901) div 100 + 1"
    by linarith
  have c: "(y - 1601) div 400 \<le> (y + 1 - 1601) div 400"
    by (rule zdiv_mono1) simp_all
  have "\<And>p p' q q' r r' :: int. p \<le> p' \<Longrightarrow> q' \<le> q + 1 \<Longrightarrow> r \<le> r' \<Longrightarrow>
          365 * (y - 1970) + p - q + r < 365 * (y + 1 - 1970) + p' - q' + r'"
    by arith
  from this [OF a b c] have "DayFromYear y < DayFromYear (y + 1)"
    unfolding DayFromYear_def .
  with le show "((y + 1, d), (y, d)) \<in> measure (\<lambda>(y, d). nat (d - DayFromYear y))"
    by simp
qed

text \<open>
  The year of a day number is the last year that begins on or before it; the search
  goes up from a year that is not later.
\<close>

definition YearFromDay :: "int \<Rightarrow> int" where
  "YearFromDay d = yearSearch (1970 + min (d div 365) (d div 366)) d"

definition InLeapYear :: "int \<Rightarrow> int" where
  "InLeapYear d = (if DaysInYear (YearFromDay d) = 366 then 1 else 0)"

definition DayWithinYear :: "int \<Rightarrow> int" where
  "DayWithinYear d = d - DayFromYear (YearFromDay d)"

definition monthStart :: "int \<Rightarrow> int \<Rightarrow> int" where
  "monthStart leap m =
     (if m = 0 then 0 else if m = 1 then 31 else if m = 2 then 59 + leap
      else if m = 3 then 90 + leap else if m = 4 then 120 + leap
      else if m = 5 then 151 + leap else if m = 6 then 181 + leap
      else if m = 7 then 212 + leap else if m = 8 then 243 + leap
      else if m = 9 then 273 + leap else if m = 10 then 304 + leap
      else 334 + leap)"

definition MonthFromDay :: "int \<Rightarrow> int" where
  "MonthFromDay d =
     (let w = DayWithinYear d; leap = InLeapYear d
      in if w < 31 then 0 else if w < 59 + leap then 1 else if w < 90 + leap then 2
         else if w < 120 + leap then 3 else if w < 151 + leap then 4
         else if w < 181 + leap then 5 else if w < 212 + leap then 6
         else if w < 243 + leap then 7 else if w < 273 + leap then 8
         else if w < 304 + leap then 9 else if w < 334 + leap then 10 else 11)"

definition DateFromDay :: "int \<Rightarrow> int" where
  "DateFromDay d = DayWithinYear d + 1 - monthStart (InLeapYear d) (MonthFromDay d)"

definition MakeDay :: "int \<Rightarrow> int \<Rightarrow> int \<Rightarrow> int" where
  "MakeDay y m dt =
     (let ym = y + m div 12; mn = m mod 12
      in DayFromYear ym + monthStart (if DaysInYear ym = 366 then 1 else 0) mn + dt - 1)"

definition MakeDate :: "int \<Rightarrow> int \<Rightarrow> int" where
  "MakeDate day time = day * msPerDay + time"

definition utcGetDate :: "date \<Rightarrow> int" where
  "utcGetDate t = DateFromDay (Day t)"

definition utcSetDate :: "date \<Rightarrow> int \<Rightarrow> date" where
  "utcSetDate t dt =
     MakeDate (MakeDay (YearFromDay (Day t)) (MonthFromDay (Day t)) dt) (TimeWithinDay t)"

section \<open>Notions the properties are stated with\<close>

text \<open>
  An access record for a user and a video is in the store; the access records that
  carry a given transaction hash; and the store in which the subscription of every
  user entity with a given id is replaced, everything else being the same.
\<close>

definition accessRecordExists :: "golem_db \<Rightarrow> string \<Rightarrow> string \<Rightarrow> bool" where
  "accessRecordExists db uid vid =
     list_ex (\<lambda>e. case e of AccessData a \<Rightarrow> userId a = uid \<and> videoId a = vid | _ \<Rightarrow> False)
       (entities db)"

definition recordsForHash :: "golem_db \<Rightarrow> string \<Rightarrow> entity_data list" where
  "recordsForHash db h =
     filter (\<lambda>e. case e of AccessData a \<Rightarrow> transactionHash a = Some h | _ \<Rightarrow> False)
       (entities db)"

definition replaceSubscription ::
  "string \<Rightarrow> (user \<Rightarrow> subscription option) \<Rightarrow> entity_data \<Rightarrow> entity_data" where
  "replaceSubscription uid f e =
     (case e of
        UserData u \<Rightarrow> if user_id u = uid then UserData (u\<lparr>subscription := f u\<rparr>) else e
      | _ \<Rightarrow> e)"

definition withSubscription ::
  "string \<Rightarrow> (user \<Rightarrow> subscription option) \<Rightarrow> golem_db \<Rightarrow> golem_db" where
  "withSubscription uid f db = db\<lparr>entities := map (replaceSubscription uid f) (entities db)\<rparr>"



text \<open>
  A log the decoder ignores: one that the token contract did not emit, or one that
  does not parse as a Transfer event (the parser throws, answers null, or gives an
  event of another name).
\<close>

definition ignoredLog :: "env \<Rightarrow> log \<Rightarrow> bool" where
  "ignoredLog env l =
     (toLowerCase (log_address l) \<noteq> toLowerCase (usdcAddress env)
      \<or> (case parseLog env l of
            Inl err \<Rightarrow> True
          | Inr None \<Rightarrow> True
          | Inr (Some event) \<Rightarrow> event_name event \<noteq> ''Transfer''))"

text \<open>
  The failure kinds of the specification, and the kind of each error of the verifier.
\<close>

datatype failure_kind =
    KindTransactionNotFound
  | KindTransactionReverted
  | KindRecipientMismatch
  | KindInsufficientAmount
  | KindChainUnavailable

fun kindOf :: "payment_error \<Rightarrow> failure_kind" where
  "kindOf TransactionNotFound = KindTransactionNotFound"
| "kindOf TransactionReceiptNotFound = KindTransactionNotFound"
| "kindOf TransactionFailed = KindTransactionReverted"
| "kindOf NoUsdcTransferFound = KindRecipientMismatch"
| "kindOf UsdcTransferNotDirected = KindRecipientMismatch"
| "kindOf TransactionNotDirected = KindRecipientMismatch"
| "kindOf (InsufficientPayment expected got) = KindInsufficientAmount"
| "kindOf (ProviderError msg) = KindChainUnavailable"

section \<open>A shop, for concrete runs\<close>

definition alice :: user where
  "alice =
     \<lparr>user_id = ''u1'', walletAddress = ''0xA11CE'', email = None, role = RoleUser,
      whitelistStatus = Approved, subscription = None,
      createdAt = DateObject 1700000000000,
      updatedAt = None, lastLogin = None\<rparr>"

definition videoOne :: video where
  "videoOne =
     \<lparr>video_id = ''v1'', title = ''The Fool'', video_type = ''tutorial'',
      pricing = \<lparr>singlePriceUsd = ''5.00'', isFreeWithSubscription = True\<rparr>,
      mediaUrls_video = ''https://cdn/v1.mp4'', video_isActive = True\<rparr>"

definition videoTwo :: video where
  "videoTwo =
     \<lparr>video_id = ''v2'', title = ''The Magician'', video_type = ''tutorial'',
      pricing = \<lparr>singlePriceUsd = ''1'', isFreeWithSubscription = False\<rparr>,
      mediaUrls_video = ''https://cdn/v2.mp4'', video_isActive = True\<rparr>"

definition monthly :: subscription_tier where
  "monthly =
     \<lparr>tier_id = ''t1'', tier_name = ''Monthly'', priceUsd = ''5'', durationDays = 30,
      tier_isActive = True\<rparr>"

definition shopDb :: golem_db where
  "shopDb =
     \<lparr>entities = [UserData alice, VideoData videoOne, VideoData videoTwo, TierData monthly],
      queryError = (\<lambda>q. None), createError = None\<rparr>"

definition aliceAccess :: user_video_access where
  "aliceAccess =
     \<lparr>access_id = ''a0'', userId = ''u1'', videoId = ''v1'', accessType = Purchase,
      transactionHash = Some ''0xold'', purchaseDate = Some (DateObject 1700000000000),
      paymentToken = Some USDC, amountPaid = Some ''5.0'', watchHistory = [],
      isFavorite = False\<rparr>"

definition ownedDb :: golem_db where
  "ownedDb = shopDb\<lparr>entities := entities shopDb @ [AccessData aliceAccess]\<rparr>"

definition downDb :: golem_db where
  "downDb = ownedDb\<lparr>queryError := (\<lambda>q. Some ''connection refused'')\<rparr>"

text \<open>
  The chain of the shop: the transaction \<open>0xpaid\<close> transfers 5000000 units of the
  token (six decimals) to the store wallet, next to a log of the token contract that
  does not decode; \<open>0xshort\<close> transfers 4990000 units; \<open>0xdust\<close> sends one unit
  less than 10^18 of the native coin.  The log parser of the example decodes a log
  whose first topic is \<open>Transfer\<close> and whose data are digits, throws when the data
  are not digits, and answers null otherwise.
\<close>

definition shopParseLog :: "log \<Rightarrow> string + log_description option" where
  "shopParseLog l =
     (case log_topics l of
        [sig, sender, recipient] \<Rightarrow>
          if sig \<noteq> ''Transfer'' then Inr None
          else if list_all isDigit (log_data l)
          then Inr (Some \<lparr>event_name = ''Transfer'', args_from = sender, args_to = recipient,
                          args_value = digitsValue (log_data l)\<rparr>)
          else Inl ''data out-of-bounds''
      | _ \<Rightarrow> Inr None)"

definition transferLog :: log where
  "transferLog =
     \<lparr>log_address = ''0x036cbd53842c5426634e792954da7dfd334ff160'',
      log_topics = [''Transfer'', ''0xA11CE'', ''0x5708E''], log_data = ''5000000''\<rparr>"

definition brokenLog :: log where
  "brokenLog =
     \<lparr>log_address = ''0x036CbD53842c5426634e792954Da7Dfd334fF160'',
      log_topics = [''Transfer'', ''0xA11CE'', ''0x5708E''], log_data = ''0x''\<rparr>"

definition paidReceipt :: receipt where
  "paidReceipt =
     \<lparr>receipt_status = Some 1, receipt_logs = [brokenLog, transferLog], blockNumber = 9,
      gasUsed = 6, gasPrice = Some 1\<rparr>"

definition shortLog :: log where
  "shortLog =
     \<lparr>log_address = ''0x036cbd53842c5426634e792954da7dfd334ff160'',
      log_topics = [''Transfer'', ''0xA11CE'', ''0x5708E''], log_data = ''4990000''\<rparr>"

definition shortReceipt :: receipt where
  "shortReceipt =
     \<lparr>receipt_status = Some 1, receipt_logs = [shortLog], blockNumber = 8,
      gasUsed = 6, gasPrice = Some 1\<rparr>"

definition dustReceipt :: receipt where
  "dustReceipt =
     \<lparr>receipt_status = Some 1, receipt_logs = [], blockNumber = 7, gasUsed = 2,
      gasPrice = Some 1\<rparr>"

definition dustTransaction :: transaction_response where
  "dustTransaction =
     \<lparr>tx_to = Some ''0x5708e'', tx_from = ''0xA11CE'', tx_value = 999999999999999999\<rparr>"

definition shopEnv :: env where
  "shopEnv =
     \<lparr>getTransactionReceipt =
        (\<lambda>h. if h = ''0xpaid'' then Inr (Some paidReceipt)
             else if h = ''0xshort'' then Inr (Some shortReceipt)
             else if h = ''0xdust'' then Inr (Some dustReceipt) else Inr None),
      getTransaction = (\<lambda>h. if h = ''0xdust'' then Inr (Some dustTransaction) else Inr None),
      decimals = Inr 6,
      parseLog = shopParseLog,
      formatUnits = ethers_formatUnits,
      parseFloat = js_parseFloat,
      usdcAddress = ''0x036CbD53842c5426634e792954Da7Dfd334fF160'',
      storeWalletAddress = ''0x5708E'',
      getDate = utcGetDate,
      setDate = utcSetDate\<rparr>"

text \<open>
  A chain whose provider fails on the receipt lookup with an error of its own whose
  message reads like the one the verifier uses for a transaction it does not find.
\<close>

definition faultyEnv :: env where
  "faultyEnv = shopEnv\<lparr>getTransactionReceipt := (\<lambda>h. Inl ''Transaction not found'')\<rparr>"

definition purchaseRequest :: "string \<Rightarrow> string \<Rightarrow> string \<Rightarrow> request" where
  "purchaseRequest item txHash token =
     \<lparr>req_user = Some alice, body_transactionHash = Some txHash, body_videoId = Some item,
      body_tierId = Some item, body_paymentToken = Some token, params_id = Some item\<rparr>"

text \<open>
  The clock of the runs: the last millisecond of 31 January 2025 (UTC) at every
  reading; and a clock whose second reading is one millisecond later, in February.
\<close>

definition shopClock :: "nat \<Rightarrow> date" where
  "shopClock k = 1738367999999"

definition midnightClock :: "nat \<Rightarrow> date" where
  "midnightClock k = (if k = 0 then 1738367999999 else 1738368000000)"

definition afterFirstPurchase :: golem_db where
  "afterFirstPurchase =
     fst (verifyVideoPurchase shopEnv shopDb (purchaseRequest ''v1'' ''0xpaid'' ''USDC'') ''a1''
            shopClock)"

definition afterSecondPurchase :: golem_db where
  "afterSecondPurchase =
     fst (verifyVideoPurchase shopEnv afterFirstPurchase
            (purchaseRequest ''v2'' ''0xpaid'' ''USDC'') ''a2'' shopClock)"

definition memberSubscription :: subscription where
  "memberSubscription =
     \<lparr>tierId = Some ''t1'', startDate = Some (DateObject 1738367999999),
      endDate = Some (DateObject 1740959999999), isActive = True\<rparr>"

definition activeSubscription :: "user \<Rightarrow> subscription option" where
  "activeSubscription u = Some memberSubscription"

definition member :: user where
  "member = alice\<lparr>subscription := Some memberSubscription\<rparr>"

definition memberDb :: golem_db where
  "memberDb = withSubscription ''u1'' activeSubscription shopDb"

section \<open>What a query matches\<close>

lemma matches_accessQuery:
  "matches (accessQuery uid vid) e =
     (case e of AccessData a \<Rightarrow> userId a = uid \<and> videoId a = vid | _ \<Rightarrow> False)"
  by (cases e) (auto simp: matches_def accessQuery_def)

lemma matches_userQueryByWallet:
  "matches (userQueryByWallet w) e = (case e of UserData u \<Rightarrow> walletAddress u = w | _ \<Rightarrow> False)"
  by (cases e) (auto simp: matches_def userQueryByWallet_def)

lemma matches_userQueryById:
  "matches (userQueryById i) e = (case e of UserData u \<Rightarrow> user_id u = i | _ \<Rightarrow> False)"
  by (cases e) (auto simp: matches_def userQueryById_def)

lemma accessRecordExists_filter:
  "accessRecordExists db uid vid \<longleftrightarrow> filter (matches (accessQuery uid vid)) (entities db) \<noteq> []"
  by (auto simp: accessRecordExists_def matches_accessQuery list_ex_iff filter_empty_conv
           split: entity_data.splits)

lemma greaterThanDate_stringifyDate: "greaterThanDate (stringifyDate d) now = False"
  by (cases d) simp_all

lemma getTime_stringifyDate: "getTime (stringifyDate d) = None"
  by (cases d) simp_all

text \<open>
  A user the lookups return was decoded from a stored payload.
\<close>

lemma findUserByWallet_decoded:
  assumes "findUserByWallet db w = Some u"
  shows "\<exists>stored. u = decodeUser stored"
proof -
  from assms obtain e where "decodeData e = UserData u"
    by (auto simp: findUserByWallet_def split: sum.splits list.splits entity_data.splits)
  then show ?thesis
    by (cases e) auto
qed

lemma getUserById_decoded:
  assumes "getUserById db i = Some u"
  shows "\<exists>stored. u = decodeUser stored"
proof -
  from assms obtain e where "decodeData e = UserData u"
    by (auto simp: getUserById_def split: sum.splits list.splits entity_data.splits)
  then show ?thesis
    by (cases e) auto
qed

lemma getUserById_createdAt:
  "getUserById db i = Some u \<Longrightarrow> getTime (createdAt u) = None"
  by (auto dest!: getUserById_decoded simp: decodeUser_def getTime_stringifyDate)

text \<open>
  The subscription fallback of the access check never grants: the end date of a user
  read from the store is a string, and a string is not greater than a \<open>Date\<close>.
\<close>

lemma fallback_never_grants:
  assumes "findUserByWallet db w = Some u" and "subscription u = Some s"
      and "endDate s \<noteq> None"
  shows "\<not> greaterThanDate (the (endDate s)) now"
proof -
  from assms(1) obtain stored where u: "u = decodeUser stored"
    by (auto dest: findUserByWallet_decoded)
  with assms(2) obtain s0 where "s = decodeSubscription s0"
    by (auto simp: decodeUser_def)
  with assms(3) show ?thesis
    by (cases "endDate s0") (simp_all add: decodeSubscription_def greaterThanDate_stringifyDate)
qed

lemma checkUserVideoAccess_iff:
  "checkUserVideoAccess db now uid vid \<longleftrightarrow>
     queryError db (accessQuery uid vid) = None \<and> accessRecordExists db uid vid"
proof (cases "queryError db (accessQuery uid vid)")
  case (Some msg)
  then show ?thesis
    by (simp add: checkUserVideoAccess_def queryEntities_def)
next
  case None
  show ?thesis
  proof (cases "accessRecordExists db uid vid")
    case True
    with None show ?thesis
      by (simp add: checkUserVideoAccess_def queryEntities_def accessRecordExists_filter)
  next
    case False
    with None show ?thesis
      by (auto simp: checkUserVideoAccess_def queryEntities_def accessRecordExists_filter
            split: option.splits dest: fallback_never_grants)
  qed
qed

lemma checkUserVideoAccess_record:
  "accessRecordExists db uid vid \<Longrightarrow> queryError db (accessQuery uid vid) = None \<Longrightarrow>
     checkUserVideoAccess db now uid vid"
  by (simp add: checkUserVideoAccess_iff)

section \<open>Properties of the access check\<close>

text \<open>
  C9.  The access check fails closed: when the store query for the access records of
  the user and the video raises an error, \<open>checkUserVideoAccess\<close> answers false; it
  neither propagates the error nor grants access.
\<close>

theorem checkUserVideoAccess_fails_closed:
  "queryError db (accessQuery uid vid) = Some msg \<Longrightarrow>
     checkUserVideoAccess db now uid vid = False"
  by (simp add: checkUserVideoAccess_def queryEntities_def)

text \<open>
  In the run, the store holds an access record of the user for the video and every
  query fails: access is denied.
\<close>

theorem checkUserVideoAccess_fails_closed_witness:
  "accessRecordExists downDb ''u1'' ''v1''
   \<and> queryError downDb (accessQuery ''u1'' ''v1'') = Some ''connection refused''
   \<and> checkUserVideoAccess downDb 1738367999999 ''u1'' ''v1'' = False"
  using checkUserVideoAccess_fails_closed
          [of downDb "''u1''" "''v1''" "''connection refused''" 1738367999999]
  by (simp add: downDb_def ownedDb_def shopDb_def accessRecordExists_def aliceAccess_def)

lemma matches_replaceSubscription:
  "matches q (replaceSubscription uid f e) = matches q e"
  by (cases e) (simp_all add: matches_def replaceSubscription_def)

lemma filter_matches_withSubscription:
  "filter (matches q) (entities (withSubscription uid f db)) =
     map (replaceSubscription uid f) (filter (matches q) (entities db))"
  by (simp add: withSubscription_def filter_map o_def matches_replaceSubscription)

lemma queryError_withSubscription:
  "queryError (withSubscription uid f db) = queryError db"
  by (simp add: withSubscription_def)

lemma accessRecordExists_withSubscription:
  "accessRecordExists (withSubscription uid' f db) uid vid = accessRecordExists db uid vid"
  by (simp add: accessRecordExists_filter filter_matches_withSubscription)

text \<open>
  C10.  The result of \<open>checkUserVideoAccess\<close> for a user and a video does not depend
  on the subscription state of that user: replacing the subscription of every stored
  entity of the user by anything else leaves the result unchanged, in particular when
  no access record exists and the subscription fallback decides.  The fallback looks
  the user up by the empty wallet address; the theorem is stated for the case the
  claim describes, in which the requesting user is not the one stored under the empty
  wallet address (the login route refuses an empty address).
\<close>

theorem access_independent_of_own_subscription:
  assumes "\<forall>u. UserData u \<in> set (entities db) \<longrightarrow> user_id u = uid \<longrightarrow> walletAddress u \<noteq> ''''"
  shows "checkUserVideoAccess (withSubscription uid f db) now uid vid =
           checkUserVideoAccess db now uid vid"
  by (simp add: checkUserVideoAccess_iff queryError_withSubscription
        accessRecordExists_withSubscription)

text \<open>
  In the run the user has no access record and no subscription; giving her an active
  subscription that ends in the future changes nothing: access stays denied.
\<close>

theorem access_independent_of_own_subscription_witness:
  "\<not> accessRecordExists shopDb ''u1'' ''v1''
   \<and> subscription alice = None
   \<and> checkUserVideoAccess (withSubscription ''u1'' activeSubscription shopDb) 1738367999999
         ''u1'' ''v1'' = checkUserVideoAccess shopDb 1738367999999 ''u1'' ''v1''
   \<and> checkUserVideoAccess shopDb 1738367999999 ''u1'' ''v1'' = False"
proof -
  have wallet: "\<forall>u. UserData u \<in> set (entities shopDb) \<longrightarrow> user_id u = ''u1'' \<longrightarrow>
                  walletAddress u \<noteq> ''''"
    by (simp add: shopDb_def alice_def)
  have "\<not> accessRecordExists shopDb ''u1'' ''v1''"
    by code_simp
  moreover have "subscription alice = None"
    by (simp add: alice_def)
  moreover have "checkUserVideoAccess shopDb 1738367999999 ''u1'' ''v1'' = False"
    by code_simp
  ultimately show ?thesis
    using access_independent_of_own_subscription
            [OF wallet, of activeSubscription 1738367999999 "''v1''"]
    by simp
qed








section \<open>Properties of the payment verification\<close>

lemma transferEvents_append:
  "transferEvents env (xs @ ys) = transferEvents env xs @ transferEvents env ys"
  by (simp add: transferEvents_def)

lemma transferEvents_ignored:
  "ignoredLog env l \<Longrightarrow> transferEvents env [l] = []"
  by (auto simp: transferEvents_def ignoredLog_def tryParseLog_def split: sum.splits option.splits)

lemma transferEvents_drop:
  "ignoredLog env l \<Longrightarrow> transferEvents env (xs @ l # ys) = transferEvents env (xs @ ys)"
  using transferEvents_append [of env xs "[l] @ ys"] transferEvents_append [of env "[l]" ys]
  by (simp add: transferEvents_ignored transferEvents_append)

lemma tryParseLog_receipt_update:
  "tryParseLog (env\<lparr>getTransactionReceipt := g\<rparr>) = tryParseLog env"
  by (rule ext) (simp add: tryParseLog_def)

lemma transferEvents_receipt_update:
  "transferEvents (env\<lparr>getTransactionReceipt := g\<rparr>) ls = transferEvents env ls"
  by (simp add: transferEvents_def tryParseLog_receipt_update)

text \<open>
  C8.  The decoder considers only the logs the configured token contract emitted
  (addresses compared without regard to case), and an entry that does not parse as a
  Transfer event is dropped silently: a log of another address, or one on which the
  parser throws, answers null or gives another event, can be removed from the receipt
  without changing the decoded transfers or the result of the verification.
\<close>

theorem ignored_logs_are_dropped:
  "ignoredLog env l \<longrightarrow>
     transferEvents env (xs @ l # ys) = transferEvents env (xs @ ys)
     \<and> verifyUsdcPayment
           (env\<lparr>getTransactionReceipt := (\<lambda>h. Inr (Some (r\<lparr>receipt_logs := xs @ l # ys\<rparr>)))\<rparr>)
           txHash expected recipient =
         verifyUsdcPayment
           (env\<lparr>getTransactionReceipt := (\<lambda>h. Inr (Some (r\<lparr>receipt_logs := xs @ ys\<rparr>)))\<rparr>)
           txHash expected recipient"
  by (simp add: verifyUsdcPayment_def verifyUsdcPayment_try_def transferEvents_drop
        transferEvents_receipt_update detailsOf_def
        cong: option.case_cong sum.case_cong if_cong)

text \<open>
  In the run the receipt holds a log of the token contract whose data do not decode,
  before the transfer: the verification succeeds as it does without that log.
\<close>

theorem ignored_logs_are_dropped_witness:
  "ignoredLog shopEnv brokenLog
   \<and> parseLog shopEnv brokenLog = Inl ''data out-of-bounds''
   \<and> transferEvents shopEnv ([] @ brokenLog # [transferLog]) =
       transferEvents shopEnv ([] @ [transferLog])
   \<and> verifyUsdcPayment
         (shopEnv\<lparr>getTransactionReceipt :=
                    (\<lambda>h. Inr (Some (paidReceipt\<lparr>receipt_logs := [] @ brokenLog # [transferLog]\<rparr>)))\<rparr>)
         ''0xpaid'' ''5.00'' ''0x5708E'' =
       verifyUsdcPayment
         (shopEnv\<lparr>getTransactionReceipt :=
                    (\<lambda>h. Inr (Some (paidReceipt\<lparr>receipt_logs := [] @ [transferLog]\<rparr>)))\<rparr>)
         ''0xpaid'' ''5.00'' ''0x5708E''
   \<and> verifyUsdcPayment shopEnv ''0xpaid'' ''5.00'' ''0x5708E'' =
       Inr \<lparr>success = True, amount = ''5.0'', payer = ''0xA11CE'',
            transactionDetails = detailsOf paidReceipt\<rparr>"
proof -
  have i: "ignoredLog shopEnv brokenLog"
    by code_simp
  have p: "parseLog shopEnv brokenLog = Inl ''data out-of-bounds''"
    by code_simp
  have v: "verifyUsdcPayment shopEnv ''0xpaid'' ''5.00'' ''0x5708E'' =
       Inr \<lparr>success = True, amount = ''5.0'', payer = ''0xA11CE'',
            transactionDetails = detailsOf paidReceipt\<rparr>"
    by code_simp
  note t = ignored_logs_are_dropped
            [where env = shopEnv and l = brokenLog and xs = "[]" and ys = "[transferLog]"
               and r = paidReceipt and txHash = "''0xpaid''" and expected = "''5.00''"
               and recipient = "''0x5708E''"]
  from t i have
    "transferEvents shopEnv ([] @ brokenLog # [transferLog]) =
       transferEvents shopEnv ([] @ [transferLog])
     \<and> verifyUsdcPayment
         (shopEnv\<lparr>getTransactionReceipt :=
                    (\<lambda>h. Inr (Some (paidReceipt\<lparr>receipt_logs := [] @ brokenLog # [transferLog]\<rparr>)))\<rparr>)
         ''0xpaid'' ''5.00'' ''0x5708E'' =
       verifyUsdcPayment
         (shopEnv\<lparr>getTransactionReceipt :=
                    (\<lambda>h. Inr (Some (paidReceipt\<lparr>receipt_logs := [] @ [transferLog]\<rparr>)))\<rparr>)
         ''0xpaid'' ''5.00'' ''0x5708E''"
    by (rule mp)
  with i p v show ?thesis
    by blast
qed

lemma usdc_insufficient_iff:
  "verifyUsdcPayment_try env txHash expected recipient = Inl (InsufficientPayment e g) \<longleftrightarrow>
     (\<exists>r event dec.
        getTransactionReceipt env txHash = Inr (Some r) \<and> receipt_status r = Some 1
        \<and> find (\<lambda>event. toLowerCase (args_to event) = toLowerCase recipient)
              (transferEvents env (receipt_logs r)) = Some event
        \<and> decimals env = Inr dec
        \<and> e = expected \<and> g = formatUnits env (args_value event) dec
        \<and> js_lt (parseFloat env g) (parseFloat env expected))"
  by (auto simp: verifyUsdcPayment_try_def Let_def split: sum.splits option.splits if_splits)

lemma eth_insufficient_iff:
  "verifyEthPayment_try env txHash expected recipient = Inl (InsufficientPayment e g) \<longleftrightarrow>
     (\<exists>tx r.
        getTransaction env txHash = Inr (Some tx)
        \<and> getTransactionReceipt env txHash = Inr (Some r) \<and> receipt_status r = Some 1
        \<and> map_option toLowerCase (tx_to tx) = Some (toLowerCase recipient)
        \<and> e = expected \<and> g = formatUnits env (tx_value tx) 18
        \<and> js_lt (parseFloat env g) (parseFloat env expected))"
  by (auto simp: verifyEthPayment_try_def Let_def split: sum.splits option.splits if_splits)

text \<open>
  C4.  Both verifiers mean to refuse an amount below the expected one (they throw the
  insufficient-payment error when the comparison says less), but they compare the two
  amounts as the double-precision numbers \<open>parseFloat\<close> gives (the two lemmas
  above), and a shortfall below the precision of a double is lost.  The transaction
  \<open>0xdust\<close> transfers 999999999999999999 of the smallest unit of the native
  coin, strictly less than the expected amount of one coin (10^18 units); its decimal
  string parses to the same double as the expected amount, the verification accepts
  it, and the purchase is granted.
\<close>

theorem shortfall_below_precision_accepted:
  "tx_value dustTransaction < 1 * 10 ^ 18
   \<and> verifyEthPayment_try shopEnv ''0xdust'' ''1'' ''0x5708E'' =
       Inr \<lparr>success = True, amount = ''0.999999999999999999'', payer = ''0xA11CE'',
            transactionDetails = detailsOf dustReceipt\<rparr>
   \<and> singlePriceUsd (pricing videoTwo) = ''1''
   \<and> snd (verifyVideoPurchase shopEnv shopDb (purchaseRequest ''v2'' ''0xdust'' ''ETH'') ''a1''
             shopClock) =
       \<lparr>status = 200,
        body = VideoPurchased ''Purchase verified and access granted'' ''a1''
                 ''0.999999999999999999'' ''ETH'' (detailsOf dustReceipt)\<rparr>"
  by code_simp

section \<open>Properties of the video purchase\<close>

lemma verifyPayment_rethrow:
  "verifyPayment env token txHash price = rethrow (verifyPayment_try env token txHash price)"
  by (simp add: verifyPayment_def verifyPayment_try_def verifyUsdcPayment_def
        verifyEthPayment_def)

lemma verifyPayment_try_success:
  "verifyPayment_try env token txHash price = Inr res \<Longrightarrow> success res"
  by (auto simp: verifyPayment_try_def verifyUsdcPayment_try_def verifyEthPayment_try_def
        Let_def split: sum.splits option.splits if_splits)

lemma verifyPayment_success:
  "verifyPayment env token txHash price = Inr res \<Longrightarrow> success res"
  by (auto simp: verifyPayment_rethrow rethrow_def split: sum.splits
        dest: verifyPayment_try_success)

lemma message_kindOf:
  "kindOf a \<noteq> KindChainUnavailable \<Longrightarrow> kindOf b \<noteq> KindChainUnavailable \<Longrightarrow>
     message a = message b \<Longrightarrow> kindOf a = kindOf b"
  by (cases a; cases b) simp_all

lemma resolve_early_status:
  "videoPurchaseResolve db req = Inl early \<Longrightarrow> status early \<noteq> 200"
  by (auto simp: videoPurchaseResolve_def split: if_splits option.splits)

lemma resolve_fields:
  "videoPurchaseResolve db req = Inr (uid, txHash, vid, token, v) \<Longrightarrow>
     map_option user_id (req_user req) = Some uid \<and> body_videoId req = Some vid"
  by (auto simp: videoPurchaseResolve_def falsy_def split: if_splits option.splits)

text \<open>
  C2, as the claim states it, fails for the fifth kind.  Every failure of the verifier
  reaches the caller under the same status, 500, and what tells the kinds apart is the
  message alone; an error of the provider is passed on with the message the provider
  gave it.  In the run the provider fails with an error whose message is that of the
  verifier's own "not found" check: a failure of the kind ChainUnavailable and one of
  the kind TransactionNotFound reach the caller as the same response.
\<close>

theorem provider_error_read_as_not_found:
  "verifyPayment_try faultyEnv ''USDC'' ''0xnone'' ''5.00'' =
     Inl (ProviderError ''Transaction not found'')
   \<and> kindOf (ProviderError ''Transaction not found'') = KindChainUnavailable
   \<and> verifyPayment_try shopEnv ''USDC'' ''0xnone'' ''5.00'' = Inl TransactionNotFound
   \<and> kindOf TransactionNotFound = KindTransactionNotFound
   \<and> snd (verifyVideoPurchase faultyEnv shopDb (purchaseRequest ''v1'' ''0xnone'' ''USDC'')
             ''a1'' shopClock) =
       \<lparr>status = 500,
        body = Error (''Purchase verification failed: Payment verification failed: ''
                      @ ''Transaction not found'')\<rparr>
   \<and> snd (verifyVideoPurchase shopEnv shopDb (purchaseRequest ''v1'' ''0xnone'' ''USDC'')
             ''a1'' shopClock) =
       \<lparr>status = 500,
        body = Error (''Purchase verification failed: Payment verification failed: ''
                      @ ''Transaction not found'')\<rparr>"
  by code_simp

text \<open>
  C2, amended.  When the payment verification of a video purchase fails, the caller
  receives status 500 and the message of the error the verifier threw, behind the two
  fixed prefixes, and never the generic "Payment verification failed" of the handler
  (status 400).  The kind of the failure is carried by that message only.  For the
  four kinds the verifier detects by its own checks (TransactionNotFound,
  TransactionReverted, RecipientMismatch, InsufficientAmount) the messages keep the
  kinds apart: the response for an error of one of these kinds is not the response
  for an error of another.  An error of the provider (ChainUnavailable) is passed on
  with the provider's own message, whatever it says.
\<close>

theorem payment_failure_reaches_caller:
  "videoPurchaseResolve db req = Inr (uid, txHash, vid, token, v)
   \<and> verifyPayment_try env token txHash (singlePriceUsd (pricing v)) = Inl err
   \<longrightarrow> verifyVideoPurchase env db req newId clock =
         (db, \<lparr>status = 500,
               body = Error (''Purchase verification failed: ''
                             @ ''Payment verification failed: '' @ message err)\<rparr>)
       \<and> snd (verifyVideoPurchase env db req newId clock) \<noteq>
           \<lparr>status = 400, body = Error ''Payment verification failed''\<rparr>
       \<and> (\<forall>other. kindOf err \<noteq> KindChainUnavailable \<and> kindOf other \<noteq> KindChainUnavailable
                   \<and> kindOf other \<noteq> kindOf err
              \<longrightarrow> snd (verifyVideoPurchase env db req newId clock) \<noteq>
                    \<lparr>status = 500,
                     body = Error (''Purchase verification failed: ''
                                   @ ''Payment verification failed: '' @ message other)\<rparr>)"
  by (auto simp: verifyVideoPurchase_def verifyPayment_rethrow rethrow_def
        dest: message_kindOf)

text \<open>
  In the run the transfer is short of the price: the caller is told so, with both
  amounts.
\<close>

theorem payment_failure_reaches_caller_witness:
  "videoPurchaseResolve shopDb (purchaseRequest ''v1'' ''0xshort'' ''USDC'') =
     Inr (''u1'', ''0xshort'', ''v1'', ''USDC'', videoOne)
   \<and> verifyPayment_try shopEnv ''USDC'' ''0xshort'' (singlePriceUsd (pricing videoOne)) =
       Inl (InsufficientPayment ''5.00'' ''4.99'')
   \<and> snd (verifyVideoPurchase shopEnv shopDb (purchaseRequest ''v1'' ''0xshort'' ''USDC'')
             ''a1'' shopClock) =
       \<lparr>status = 500,
        body = Error (''Purchase verification failed: Payment verification failed: ''
                      @ ''Insufficient payment: expected 5.00, got 4.99'')\<rparr>"
proof -
  have res: "videoPurchaseResolve shopDb (purchaseRequest ''v1'' ''0xshort'' ''USDC'') =
               Inr (''u1'', ''0xshort'', ''v1'', ''USDC'', videoOne)"
    by code_simp
  have pay: "verifyPayment_try shopEnv ''USDC'' ''0xshort'' (singlePriceUsd (pricing videoOne)) =
               Inl (InsufficientPayment ''5.00'' ''4.99'')"
    by code_simp
  from payment_failure_reaches_caller
         [where db = shopDb and req = "purchaseRequest ''v1'' ''0xshort'' ''USDC''"
            and uid = "''u1''" and txHash = "''0xshort''" and vid = "''v1''"
            and token = "''USDC''" and v = videoOne and env = shopEnv
            and err = "InsufficientPayment ''5.00'' ''4.99''" and newId = "''a1''"
            and clock = shopClock]
       res pay
  have "verifyVideoPurchase shopEnv shopDb (purchaseRequest ''v1'' ''0xshort'' ''USDC'')
          ''a1'' shopClock =
        (shopDb, \<lparr>status = 500,
                  body = Error (''Purchase verification failed: ''
                                @ ''Payment verification failed: ''
                                @ message (InsufficientPayment ''5.00'' ''4.99''))\<rparr>)"
    by blast
  then have "snd (verifyVideoPurchase shopEnv shopDb
                    (purchaseRequest ''v1'' ''0xshort'' ''USDC'') ''a1'' shopClock) =
       \<lparr>status = 500,
        body = Error (''Purchase verification failed: Payment verification failed: ''
                      @ ''Insufficient payment: expected 5.00, got 4.99'')\<rparr>"
    by simp
  with res pay show ?thesis
    by blast
qed

text \<open>
  C3, as the claim states it, fails: the handler verifies the payment first and checks
  for existing access afterwards.  In the run the user already has access to the
  video and presents a transaction hash the chain does not know: the answer is the
  failure of the payment verification, not "already has access".
\<close>

theorem owned_video_still_verified_first:
  "checkUserVideoAccess ownedDb (shopClock 0) ''u1'' ''v1''
   \<and> snd (verifyVideoPurchase shopEnv ownedDb (purchaseRequest ''v1'' ''0xnone'' ''USDC'')
             ''a2'' shopClock) =
       \<lparr>status = 500,
        body = Error (''Purchase verification failed: Payment verification failed: ''
                      @ ''Transaction not found'')\<rparr>"
  by code_simp

text \<open>
  C3, amended.  The access check comes after the payment verification: for a request
  that passes validation, the whitelist check and the video lookup, and whose user
  already has access to the video, the handler answers "already has access" when the
  payment verifies, and the failure of the verification when it does not; in both
  cases nothing is recorded.
\<close>

theorem access_check_follows_verification:
  "videoPurchaseResolve db req = Inr (uid, txHash, vid, token, v)
   \<and> checkUserVideoAccess db (clock 0) uid vid
   \<longrightarrow> verifyVideoPurchase env db req newId clock =
         (case verifyPayment env token txHash (singlePriceUsd (pricing v)) of
            Inl msg \<Rightarrow>
              (db, \<lparr>status = 500, body = Error (''Purchase verification failed: '' @ msg)\<rparr>)
          | Inr paymentResult \<Rightarrow>
              (db, \<lparr>status = 400, body = Error ''User already has access to this video''\<rparr>))"
  by (auto simp: verifyVideoPurchase_def split: sum.splits dest: verifyPayment_success)

theorem access_check_follows_verification_witness:
  "videoPurchaseResolve ownedDb (purchaseRequest ''v1'' ''0xpaid'' ''USDC'') =
     Inr (''u1'', ''0xpaid'', ''v1'', ''USDC'', videoOne)
   \<and> checkUserVideoAccess ownedDb (shopClock 0) ''u1'' ''v1''
   \<and> verifyVideoPurchase shopEnv ownedDb (purchaseRequest ''v1'' ''0xpaid'' ''USDC'') ''a2''
         shopClock =
       (ownedDb, \<lparr>status = 400, body = Error ''User already has access to this video''\<rparr>)"
proof -
  have res: "videoPurchaseResolve ownedDb (purchaseRequest ''v1'' ''0xpaid'' ''USDC'') =
               Inr (''u1'', ''0xpaid'', ''v1'', ''USDC'', videoOne)"
    by code_simp
  have acc: "checkUserVideoAccess ownedDb (shopClock 0) ''u1'' ''v1''"
    by code_simp
  have pay: "verifyPayment shopEnv ''USDC'' ''0xpaid'' (singlePriceUsd (pricing videoOne)) =
               Inr \<lparr>success = True, amount = ''5.0'', payer = ''0xA11CE'',
                    transactionDetails = detailsOf paidReceipt\<rparr>"
    by code_simp
  from access_check_follows_verification
         [where db = ownedDb and req = "purchaseRequest ''v1'' ''0xpaid'' ''USDC''"
            and uid = "''u1''" and txHash = "''0xpaid''" and vid = "''v1''"
            and token = "''USDC''" and v = videoOne and env = shopEnv and newId = "''a2''"
            and clock = shopClock]
       res acc
  have "verifyVideoPurchase shopEnv ownedDb (purchaseRequest ''v1'' ''0xpaid'' ''USDC'') ''a2''
          shopClock =
        (case verifyPayment shopEnv ''USDC'' ''0xpaid'' (singlePriceUsd (pricing videoOne)) of
           Inl msg \<Rightarrow>
             (ownedDb,
              \<lparr>status = 500, body = Error (''Purchase verification failed: '' @ msg)\<rparr>)
         | Inr paymentResult \<Rightarrow>
             (ownedDb,
              \<lparr>status = 400, body = Error ''User already has access to this video''\<rparr>))"
    by blast
  with pay have "verifyVideoPurchase shopEnv ownedDb
                   (purchaseRequest ''v1'' ''0xpaid'' ''USDC'') ''a2'' shopClock =
       (ownedDb, \<lparr>status = 400, body = Error ''User already has access to this video''\<rparr>)"
    by simp
  with res acc show ?thesis
    by blast
qed

lemma accessRecordExists_append:
  "accessRecordExists (db\<lparr>entities := entities db @ [AccessData a]\<rparr>) (userId a) (videoId a)"
  by (simp add: accessRecordExists_def)

lemma granted_leaves_record:
  assumes "verifyVideoPurchase env db req newId clock = (db', r)" and "status r = 200"
  shows "\<exists>uid txHash vid token v.
           videoPurchaseResolve db req = Inr (uid, txHash, vid, token, v)
           \<and> accessRecordExists db' uid vid \<and> queryError db' = queryError db"
proof (cases "videoPurchaseResolve db req")
  case (Inl early)
  with assms resolve_early_status [OF Inl] show ?thesis
    by (auto simp: verifyVideoPurchase_def)
next
  case (Inr t)
  obtain uid txHash vid token v where t: "t = (uid, txHash, vid, token, v)"
    by (cases t) auto
  from assms Inr t have "accessRecordExists db' uid vid \<and> queryError db' = queryError db"
    by (auto simp: verifyVideoPurchase_def recordUserVideoAccess_def createEntities_def
          accessRecordExists_def Let_def
        split: sum.splits if_splits option.splits)
  with Inr t show ?thesis
    by blast
qed

lemma owned_video_not_granted:
  assumes "accessRecordExists db uid vid" and "queryError db (accessQuery uid vid) = None"
      and "map_option user_id (req_user req) = Some uid" and "body_videoId req = Some vid"
  shows "fst (verifyVideoPurchase env db req newId clock) = db"
    and "status (snd (verifyVideoPurchase env db req newId clock)) \<noteq> 200"
    and "videoPurchaseResolve db req = Inr (uid', txHash, vid', token, v) \<Longrightarrow>
         verifyPayment env token txHash (singlePriceUsd (pricing v)) = Inr res \<Longrightarrow>
         snd (verifyVideoPurchase env db req newId clock) =
           \<lparr>status = 400, body = Error ''User already has access to this video''\<rparr>"
proof -
  have access: "checkUserVideoAccess db now uid vid" for now
    using assms(1,2) by (rule checkUserVideoAccess_record)
  have same: "uid' = uid \<and> vid' = vid"
    if "videoPurchaseResolve db req = Inr (uid', txHash, vid', token, v)"
    for uid' txHash vid' token v
    using resolve_fields [OF that] assms(3,4) by simp
  show "fst (verifyVideoPurchase env db req newId clock) = db"
    using access same
    by (auto simp: verifyVideoPurchase_def split: sum.splits prod.splits)
  show "status (snd (verifyVideoPurchase env db req newId clock)) \<noteq> 200"
    using access same resolve_early_status [of db req]
    by (auto simp: verifyVideoPurchase_def split: sum.splits prod.splits)
  show "snd (verifyVideoPurchase env db req newId clock) =
           \<lparr>status = 400, body = Error ''User already has access to this video''\<rparr>"
    if "videoPurchaseResolve db req = Inr (uid', txHash, vid', token, v)"
      and "verifyPayment env token txHash (singlePriceUsd (pricing v)) = Inr res"
    using that access same [OF that(1)] verifyPayment_success [OF that(2)]
    by (simp add: verifyVideoPurchase_def)
qed

text \<open>
  C1, as the claim states it, fails: no record is keyed by the transaction hash, and
  nothing looks a hash up.  In the run the same user presents the same transaction
  hash for two different videos, one call after the other: both calls are granted,
  and the store ends with two access records that carry that hash.
\<close>

theorem same_hash_granted_twice:
  "status (snd (verifyVideoPurchase shopEnv shopDb (purchaseRequest ''v1'' ''0xpaid'' ''USDC'')
                  ''a1'' shopClock)) = 200
   \<and> status (snd (verifyVideoPurchase shopEnv afterFirstPurchase
                    (purchaseRequest ''v2'' ''0xpaid'' ''USDC'') ''a2'' shopClock)) = 200
   \<and> length (recordsForHash afterSecondPurchase ''0xpaid'') = 2"
  by code_simp

text \<open>
  C1, amended.  The key of an access record is the user and the video.  After a call
  that granted access, a later call of the same user for the same video (with any
  transaction hash, at any time) creates no record and is not granted, as long as the
  store answers the access query; when that call passes the checks before the
  payment verification and its payment verifies, the answer is "already has access".
  Calls that run concurrently are not covered.
\<close>

theorem repeated_purchase_refused:
  "verifyVideoPurchase env db req newId clock = (db', r) \<and> status r = 200
   \<and> map_option user_id (req_user req') = map_option user_id (req_user req)
   \<and> body_videoId req' = body_videoId req
   \<and> queryError db (accessQuery (user_id (the (req_user req))) (the (body_videoId req))) = None
   \<longrightarrow> fst (verifyVideoPurchase env' db' req' newId' clock') = db'
       \<and> status (snd (verifyVideoPurchase env' db' req' newId' clock')) \<noteq> 200
       \<and> (\<forall>uid txHash vid token v res.
             videoPurchaseResolve db' req' = Inr (uid, txHash, vid, token, v)
             \<and> verifyPayment env' token txHash (singlePriceUsd (pricing v)) = Inr res
             \<longrightarrow> snd (verifyVideoPurchase env' db' req' newId' clock') =
                   \<lparr>status = 400, body = Error ''User already has access to this video''\<rparr>)"
proof (intro impI, elim conjE)
  assume first: "verifyVideoPurchase env db req newId clock = (db', r)" "status r = 200"
    and user: "map_option user_id (req_user req') = map_option user_id (req_user req)"
    and video: "body_videoId req' = body_videoId req"
    and query: "queryError db (accessQuery (user_id (the (req_user req)))
                  (the (body_videoId req))) = None"
  from granted_leaves_record [OF first]
  obtain uid txHash vid token v
    where res: "videoPurchaseResolve db req = Inr (uid, txHash, vid, token, v)"
      and rec: "accessRecordExists db' uid vid" and qe: "queryError db' = queryError db"
    by blast
  from resolve_fields [OF res]
  have u: "map_option user_id (req_user req) = Some uid" and b: "body_videoId req = Some vid"
    by simp_all
  from u have uid: "user_id (the (req_user req)) = uid"
    by (cases "req_user req") simp_all
  from query qe uid b have q': "queryError db' (accessQuery uid vid) = None"
    by simp
  from user u have u': "map_option user_id (req_user req') = Some uid"
    by simp
  from video b have b': "body_videoId req' = Some vid"
    by simp
  note own = owned_video_not_granted [OF rec q' u' b']
  show "fst (verifyVideoPurchase env' db' req' newId' clock') = db'
       \<and> status (snd (verifyVideoPurchase env' db' req' newId' clock')) \<noteq> 200
       \<and> (\<forall>uid txHash vid token v res.
             videoPurchaseResolve db' req' = Inr (uid, txHash, vid, token, v)
             \<and> verifyPayment env' token txHash (singlePriceUsd (pricing v)) = Inr res
             \<longrightarrow> snd (verifyVideoPurchase env' db' req' newId' clock') =
                   \<lparr>status = 400, body = Error ''User already has access to this video''\<rparr>)"
    using own(1) own(2) own(3) by blast
qed

text \<open>
  In the run the user repeats the granted purchase of the first video with the same
  transaction hash: the store is left as it was and the answer is "already has
  access".
\<close>

theorem repeated_purchase_refused_witness:
  "status (snd (verifyVideoPurchase shopEnv shopDb (purchaseRequest ''v1'' ''0xpaid'' ''USDC'')
                  ''a1'' shopClock)) = 200
   \<and> fst (verifyVideoPurchase shopEnv afterFirstPurchase
             (purchaseRequest ''v1'' ''0xpaid'' ''USDC'') ''a2'' shopClock) = afterFirstPurchase
   \<and> snd (verifyVideoPurchase shopEnv afterFirstPurchase
             (purchaseRequest ''v1'' ''0xpaid'' ''USDC'') ''a2'' shopClock) =
       \<lparr>status = 400, body = Error ''User already has access to this video''\<rparr>"
proof -
  let ?rq = "purchaseRequest ''v1'' ''0xpaid'' ''USDC''"
  let ?first = "verifyVideoPurchase shopEnv shopDb ?rq ''a1'' shopClock"
  have f: "?first = (afterFirstPurchase, snd ?first)"
    by (simp add: afterFirstPurchase_def)
  have s: "status (snd ?first) = 200"
    by code_simp
  have q: "queryError shopDb (accessQuery (user_id (the (req_user ?rq)))
             (the (body_videoId ?rq))) = None"
    by (simp add: shopDb_def)
  have res: "videoPurchaseResolve afterFirstPurchase ?rq =
               Inr (''u1'', ''0xpaid'', ''v1'', ''USDC'', videoOne)"
    by code_simp
  have pay: "verifyPayment shopEnv ''USDC'' ''0xpaid'' (singlePriceUsd (pricing videoOne)) =
               Inr \<lparr>success = True, amount = ''5.0'', payer = ''0xA11CE'',
                    transactionDetails = detailsOf paidReceipt\<rparr>"
    by code_simp
  from repeated_purchase_refused
         [where env = shopEnv and db = shopDb and req = ?rq and newId = "''a1''"
            and clock = shopClock and db' = afterFirstPurchase and r = "snd ?first"
            and req' = ?rq and env' = shopEnv and newId' = "''a2''" and clock' = shopClock]
       f s q res pay
  show ?thesis
    by blast
qed

section \<open>Properties of the subscription handlers\<close>

text \<open>
  \<open>updateUser\<close> with updates that leave \<open>createdAt\<close> alone never creates an
  entity: it answers null when no user has the id, and else throws on the
  \<open>createdAt\<close> read from the store.
\<close>

lemma updateUser_throws:
  assumes "getUserById db i = Some existing"
      and "createdAt (updates existing) = createdAt existing"
  shows "updateUser db i updates now = Inl ''updatedUser.createdAt.getTime is not a function''"
  using assms getUserById_createdAt [OF assms(1)]
  by (simp add: updateUser_def Let_def)

lemma updateUser_never_creates:
  assumes "\<And>x. createdAt (updates x) = createdAt x"
  shows "updateUser db i updates now = Inr (db, None)
         \<or> updateUser db i updates now = Inl ''updatedUser.createdAt.getTime is not a function''"
proof (cases "getUserById db i")
  case None
  then show ?thesis
    by (simp add: updateUser_def)
next
  case (Some existing)
  from Some have "updateUser db i updates now =
                    Inl ''updatedUser.createdAt.getTime is not a function''"
    by (rule updateUser_throws) (rule assms)
  then show ?thesis
    by simp
qed

lemma updateUser_outcome:
  assumes "\<And>x. createdAt (updates x) = createdAt x"
  shows "(case updateUser db i updates now of
            Inl msg \<Rightarrow> (db, failed)
          | Inr (db', None) \<Rightarrow> (db', failed)
          | Inr (db', Some updatedUser) \<Rightarrow> (db', sent updatedUser)) = (db, failed)"
  using updateUser_never_creates [of updates db i now, OF assms] by auto

lemma subscription_early_status:
  "subscriptionPurchaseResolve db req = Inl early \<Longrightarrow> status early \<noteq> 200"
  by (auto simp: subscriptionPurchaseResolve_def split: if_splits option.splits)

lemma verifySubscriptionPurchase_cases:
  "verifySubscriptionPurchase env db req clock = (db', r) \<Longrightarrow> db' = db \<and> status r \<noteq> 200"
proof (cases "subscriptionPurchaseResolve db req")
  case (Inl early)
  assume "verifySubscriptionPurchase env db req clock = (db', r)"
  with Inl subscription_early_status [OF Inl] show ?thesis
    by (auto simp: verifySubscriptionPurchase_def)
next
  case (Inr t)
  assume run: "verifySubscriptionPurchase env db req clock = (db', r)"
  obtain uid txHash token tier where t: "t = (uid, txHash, token, tier)"
    by (cases t) auto
  let ?updates = "\<lambda>x. x\<lparr>subscription := Some (newSubscription env tier clock),
                          updatedAt := Some (DateObject (clock 2))\<rparr>"
  have "updateUser db uid ?updates (clock 3) = Inr (db, None)
        \<or> updateUser db uid ?updates (clock 3) =
            Inl ''updatedUser.createdAt.getTime is not a function''"
    by (rule updateUser_never_creates) simp
  with run Inr t show ?thesis
    by (auto simp: verifySubscriptionPurchase_def split: sum.splits if_splits)
qed

text \<open>
  C6.  The stored subscription state of the claim is never written.  The handler
  builds the subscription (start date, end date, \<open>isActive\<close> true) and hands it to
  \<open>updateUser\<close>, which throws on the \<open>createdAt\<close> of the user it read from the
  store before it creates anything.  So no subscription purchase succeeds: whatever
  the chain, the store, the request and the clock, the handler leaves the store as it
  was and does not answer 200; and a purchase that passes every check, whose payment
  verifies and whose user is in the store, is answered with status 500 and the message
  of the \<open>TypeError\<close>.
\<close>

theorem subscription_purchase_never_stored:
  "fst (verifySubscriptionPurchase env db req clock) = db
   \<and> status (snd (verifySubscriptionPurchase env db req clock)) \<noteq> 200
   \<and> (subscriptionPurchaseResolve db req = Inr (uid, txHash, token, tier)
       \<and> verifyPayment env token txHash (priceUsd tier) = Inr res
       \<and> getUserById db uid = Some existing
       \<longrightarrow> snd (verifySubscriptionPurchase env db req clock) =
             \<lparr>status = 500,
              body = Error (''Subscription purchase failed: ''
                            @ ''updatedUser.createdAt.getTime is not a function'')\<rparr>)"
proof (intro conjI impI)
  obtain db' r where run: "verifySubscriptionPurchase env db req clock = (db', r)"
    by (cases "verifySubscriptionPurchase env db req clock") auto
  from verifySubscriptionPurchase_cases [OF run] run
  show "fst (verifySubscriptionPurchase env db req clock) = db"
    and "status (snd (verifySubscriptionPurchase env db req clock)) \<noteq> 200"
    by simp_all
next
  assume a: "subscriptionPurchaseResolve db req = Inr (uid, txHash, token, tier)
             \<and> verifyPayment env token txHash (priceUsd tier) = Inr res
             \<and> getUserById db uid = Some existing"
  let ?updates = "\<lambda>x. x\<lparr>subscription := Some (newSubscription env tier clock),
                          updatedAt := Some (DateObject (clock 2))\<rparr>"
  from a have "updateUser db uid ?updates (clock 3) =
                 Inl ''updatedUser.createdAt.getTime is not a function''"
    by (intro updateUser_throws) simp_all
  with a verifyPayment_success [of env token txHash "priceUsd tier" res]
  show "snd (verifySubscriptionPurchase env db req clock) =
             \<lparr>status = 500,
              body = Error (''Subscription purchase failed: ''
                            @ ''updatedUser.createdAt.getTime is not a function'')\<rparr>"
    by (simp add: verifySubscriptionPurchase_def)
qed

text \<open>
  In the run an approved user, who is in the store, buys the monthly tier with a
  payment that verifies: the answer is status 500, and the user read from the store
  afterwards has no subscription.
\<close>

theorem subscription_purchase_never_stored_witness:
  "subscriptionPurchaseResolve shopDb (purchaseRequest ''t1'' ''0xpaid'' ''USDC'') =
     Inr (''u1'', ''0xpaid'', ''USDC'', monthly)
   \<and> verifyPayment shopEnv ''USDC'' ''0xpaid'' (priceUsd monthly) =
       Inr \<lparr>success = True, amount = ''5.0'', payer = ''0xA11CE'',
            transactionDetails = detailsOf paidReceipt\<rparr>
   \<and> getUserById shopDb ''u1'' = Some (decodeUser alice)
   \<and> snd (verifySubscriptionPurchase shopEnv shopDb (purchaseRequest ''t1'' ''0xpaid'' ''USDC'')
             shopClock) =
       \<lparr>status = 500,
        body = Error (''Subscription purchase failed: ''
                      @ ''updatedUser.createdAt.getTime is not a function'')\<rparr>
   \<and> fst (verifySubscriptionPurchase shopEnv shopDb (purchaseRequest ''t1'' ''0xpaid'' ''USDC'')
             shopClock) = shopDb
   \<and> map_option subscription (findUserByWallet shopDb ''0xA11CE'') = Some None"
proof -
  let ?rq = "purchaseRequest ''t1'' ''0xpaid'' ''USDC''"
  have res: "subscriptionPurchaseResolve shopDb ?rq = Inr (''u1'', ''0xpaid'', ''USDC'', monthly)"
    by code_simp
  have pay: "verifyPayment shopEnv ''USDC'' ''0xpaid'' (priceUsd monthly) =
               Inr \<lparr>success = True, amount = ''5.0'', payer = ''0xA11CE'',
                    transactionDetails = detailsOf paidReceipt\<rparr>"
    by code_simp
  have usr: "getUserById shopDb ''u1'' = Some (decodeUser alice)"
    by code_simp
  have sub: "map_option subscription (findUserByWallet shopDb ''0xA11CE'') = Some None"
    by code_simp
  note t = subscription_purchase_never_stored
             [where env = shopEnv and db = shopDb and req = ?rq and clock = shopClock
                and uid = "''u1''" and txHash = "''0xpaid''" and token = "''USDC''"
                and tier = monthly and existing = "decodeUser alice"
                and res = "\<lparr>success = True, amount = ''5.0'', payer = ''0xA11CE'',
                             transactionDetails = detailsOf paidReceipt\<rparr>"]
  from t have f: "fst (verifySubscriptionPurchase shopEnv shopDb ?rq shopClock) = shopDb"
    by blast
  from t res pay usr
  have s: "snd (verifySubscriptionPurchase shopEnv shopDb ?rq shopClock) =
       \<lparr>status = 500,
        body = Error (''Subscription purchase failed: ''
                      @ ''updatedUser.createdAt.getTime is not a function'')\<rparr>"
    by blast
  from res pay usr s f sub show ?thesis
    by blast
qed

text \<open>
  C7.  Cancelling never sets \<open>isActive\<close> to false: the handler hands the
  subscription with \<open>isActive\<close> false to \<open>updateUser\<close>, which creates nothing (it
  answers null or throws on the \<open>createdAt\<close> read from the store), and both
  outcomes are answered with status 500 "Failed to cancel subscription".  So the
  handler always leaves the store as it was and never answers 200.  For an
  authenticated caller whose user record is found, it fails with "No active
  subscription found" exactly when the user has no subscription or its \<open>isActive\<close>
  flag is false, as the claim says; when the subscription is active it answers 500 and
  the subscription stays active.  A caller whose user record is not found is answered
  404 "User not found".
\<close>

theorem cancel_never_deactivates:
  "fst (cancelSubscription db req clock) = db
   \<and> status (snd (cancelSubscription db req clock)) \<noteq> 200
   \<and> (req_user req = Some p \<and> user_id p \<noteq> '''' \<and> findUserByWallet db (walletAddress p) = Some u
       \<longrightarrow> (snd (cancelSubscription db req clock) =
               \<lparr>status = 400, body = Error ''No active subscription found''\<rparr>
             \<longleftrightarrow> subscription u = None \<or> \<not> isActive (the (subscription u)))
           \<and> (subscription u \<noteq> None \<and> isActive (the (subscription u))
                \<longrightarrow> snd (cancelSubscription db req clock) =
                      \<lparr>status = 500, body = Error ''Failed to cancel subscription''\<rparr>))
   \<and> (req_user req = Some p \<and> user_id p \<noteq> '''' \<and> findUserByWallet db (walletAddress p) = None
       \<longrightarrow> snd (cancelSubscription db req clock) =
             \<lparr>status = 404, body = Error ''User not found''\<rparr>)"
proof -
  have o: "(case updateUser db i (\<lambda>x. x\<lparr>subscription := Some s, updatedAt := d\<rparr>) now of
              Inl msg \<Rightarrow> (db, failed)
            | Inr (db', None) \<Rightarrow> (db', failed)
            | Inr (db', Some updatedUser) \<Rightarrow> (db', sent updatedUser)) = (db, failed)"
    for i s d now failed and sent :: "user \<Rightarrow> response"
    by (rule updateUser_outcome) simp
  show ?thesis
    by (auto simp: cancelSubscription_def falsy_def o split: option.splits)
qed

text \<open>
  In the first run the user has an active subscription: cancelling answers 500, the
  store is as it was and the subscription read from it is still active.  In the second
  the user has none: the call fails with "No active subscription found".
\<close>

theorem cancel_never_deactivates_witness:
  "findUserByWallet memberDb (walletAddress alice) = Some (decodeUser member)
   \<and> map_option isActive (subscription (decodeUser member)) = Some True
   \<and> snd (cancelSubscription memberDb (purchaseRequest ''t1'' ''0xpaid'' ''USDC'') shopClock) =
       \<lparr>status = 500, body = Error ''Failed to cancel subscription''\<rparr>
   \<and> fst (cancelSubscription memberDb (purchaseRequest ''t1'' ''0xpaid'' ''USDC'') shopClock) =
       memberDb
   \<and> findUserByWallet shopDb (walletAddress alice) = Some (decodeUser alice)
   \<and> subscription (decodeUser alice) = None
   \<and> snd (cancelSubscription shopDb (purchaseRequest ''t1'' ''0xpaid'' ''USDC'') shopClock) =
       \<lparr>status = 400, body = Error ''No active subscription found''\<rparr>"
proof -
  let ?rq = "purchaseRequest ''t1'' ''0xpaid'' ''USDC''"
  have rq: "req_user ?rq = Some alice" "user_id alice \<noteq> ''''"
    by (simp_all add: purchaseRequest_def alice_def)
  have fm: "findUserByWallet memberDb (walletAddress alice) = Some (decodeUser member)"
    by code_simp
  have sm: "subscription (decodeUser member) \<noteq> None"
      "isActive (the (subscription (decodeUser member)))"
      "map_option isActive (subscription (decodeUser member)) = Some True"
    by (simp_all add: member_def memberSubscription_def decodeUser_def decodeSubscription_def)
  have fa: "findUserByWallet shopDb (walletAddress alice) = Some (decodeUser alice)"
    by code_simp
  have sa: "subscription (decodeUser alice) = None"
    by (simp add: alice_def decodeUser_def)
  note tm = cancel_never_deactivates
              [where req = ?rq and p = alice and db = memberDb and u = "decodeUser member"
                 and clock = shopClock]
  from tm have f: "fst (cancelSubscription memberDb ?rq shopClock) = memberDb"
    by blast
  from tm rq fm sm(1,2)
  have m: "snd (cancelSubscription memberDb ?rq shopClock) =
             \<lparr>status = 500, body = Error ''Failed to cancel subscription''\<rparr>"
    by blast
  from cancel_never_deactivates
         [where req = ?rq and p = alice and db = shopDb and u = "decodeUser alice"
            and clock = shopClock]
       rq fa sa
  have a: "snd (cancelSubscription shopDb ?rq shopClock) =
             \<lparr>status = 400, body = Error ''No active subscription found''\<rparr>"
    by blast
  from fm sm(3) m f fa sa a show ?thesis
    by blast
qed

section \<open>Properties of the calendar methods\<close>

text \<open>
  The year search returns the year that holds the day: its first day is not later than
  the day and the first day of the next year is.  The search starts from a year whose
  first day is not later than the day, which the three bounds on the leap-day counts
  give.
\<close>

lemma leap_a: "0 \<le> (k::int) \<Longrightarrow> (k + 1) div 4 \<le> k"
  by linarith

lemma leap_b: "0 \<le> (k::int) \<Longrightarrow> (k + 369) div 400 \<le> (k + 69) div 100"
proof (cases "k \<le> 30")
  case True
  assume "0 \<le> k"
  with True have "(k + 369) div 400 = 0"
    by simp
  moreover from \<open>0 \<le> k\<close> have "0 \<le> (k + 69) div 100"
    by simp
  ultimately show ?thesis
    by simp
next
  case False
  then have "k + 369 \<le> 4 * (k + 69)"
    by simp
  then have "(k + 369) div 400 \<le> (4 * (k + 69)) div 400"
    by (rule zdiv_mono1) simp
  also have "(4 * (k + 69)) div 400 = (k + 69) div 100"
    by simp
  finally show ?thesis .
qed

lemma leap_c: "(k::int) < - 1 \<Longrightarrow> (k + 1) div 4 + (k + 369) div 400 \<le> (k + 69) div 100"
proof -
  assume k: "k < - 1"
  have a: "4 * ((k + 1) div 4) \<le> k + 1"
    by linarith
  have b: "400 * ((k + 369) div 400) \<le> k + 369"
    by linarith
  have c: "k + 69 < 100 * ((k + 69) div 100) + 100"
    by linarith
  from a b c k show ?thesis
    by linarith
qed

lemma yearSearch_upper: "d < DayFromYear (yearSearch y d + 1)"
proof (induction y d rule: yearSearch.induct)
  case (1 y d)
  then show ?case
    by (cases "DayFromYear (y + 1) \<le> d") simp_all
qed

lemma yearSearch_lower: "DayFromYear y \<le> d \<Longrightarrow> DayFromYear (yearSearch y d) \<le> d"
proof (induction y d rule: yearSearch.induct)
  case (1 y d)
  then show ?case
    by (cases "DayFromYear (y + 1) \<le> d") simp_all
qed

lemma DayFromYear_offset:
  "DayFromYear (1970 + k) = 365 * k + (k + 1) div 4 - (k + 69) div 100 + (k + 369) div 400"
proof -
  have "1970 + k - 1969 = k + 1" "1970 + k - 1901 = k + 69" "1970 + k - 1601 = k + 369"
    by simp_all
  then show ?thesis
    by (simp add: DayFromYear_def ac_simps)
qed

lemma search_start: "DayFromYear (1970 + min (d div 365) (d div 366)) \<le> d"
proof (cases "0 \<le> d")
  case True
  define k where "k = d div 366"
  from True have k0: "0 \<le> k" and kd: "366 * k \<le> d"
    unfolding k_def by (simp_all add: pos_imp_zdiv_nonneg_iff)
  from True have "d div 366 \<le> d div 365"
    by (intro zdiv_mono2) simp_all
  then have m: "min (d div 365) (d div 366) = k"
    unfolding k_def by (rule min.absorb2)
  from leap_a [OF k0] leap_b [OF k0] kd show ?thesis
    by (simp add: m DayFromYear_offset)
next
  case False
  define k where "k = d div 365"
  from False have k1: "k \<le> - 1" and kd: "365 * k \<le> d"
    unfolding k_def by linarith+
  from False have m: "min (d div 365) (d div 366) = k"
    unfolding k_def by (simp add: min_def)
  show ?thesis
  proof (cases "k = - 1")
    case True
    with kd show ?thesis
      by (simp add: m DayFromYear_def)
  next
    case False
    with k1 have "k < - 1"
      by simp
    from leap_c [OF this] kd show ?thesis
      by (simp add: m DayFromYear_offset)
  qed
qed

lemma YearFromDay_bounds:
  "DayFromYear (YearFromDay d) \<le> d \<and> d < DayFromYear (YearFromDay d + 1)"
  by (simp add: YearFromDay_def yearSearch_upper yearSearch_lower search_start
        del: yearSearch.simps)

lemma MonthFromDay_range: "0 \<le> MonthFromDay d \<and> MonthFromDay d \<le> 11"
  by (simp add: MonthFromDay_def Let_def)

lemma MakeDay_of_date:
  "MakeDay (YearFromDay d) (MonthFromDay d) (DateFromDay d + k) = d + k"
proof -
  have m: "MonthFromDay d div 12 = 0" "MonthFromDay d mod 12 = MonthFromDay d"
    using MonthFromDay_range [of d] by simp_all
  show ?thesis
    by (simp add: MakeDay_def m DateFromDay_def DayWithinYear_def InLeapYear_def Let_def)
qed

lemma Day_MakeDate:
  "Day (MakeDate day (TimeWithinDay t)) = day"
  by (simp add: Day_def MakeDate_def TimeWithinDay_def msPerDay_def)

lemma TimeWithinDay_MakeDate:
  "TimeWithinDay (MakeDate day (TimeWithinDay t)) = TimeWithinDay t"
  by (simp add: MakeDate_def TimeWithinDay_def msPerDay_def)

text \<open>
  Setting the day of the month of a date \<open>b\<close> to the day of the month of \<open>a\<close> plus
  \<open>k\<close> gives the calendar day \<open>k\<close> days after \<open>a\<close>, at the time of day of \<open>b\<close>,
  whatever the lengths of the months in between, when \<open>a\<close> and \<open>b\<close> lie in the same
  month.
\<close>

lemma utcSetDate_utcGetDate:
  assumes "YearFromDay (Day b) = YearFromDay (Day a)"
      and "MonthFromDay (Day b) = MonthFromDay (Day a)"
  shows "Day (utcSetDate b (utcGetDate a + k)) = Day a + k"
    and "TimeWithinDay (utcSetDate b (utcGetDate a + k)) = TimeWithinDay b"
  by (simp_all add: utcSetDate_def utcGetDate_def Day_MakeDate TimeWithinDay_MakeDate assms
        MakeDay_of_date)

text \<open>
  The subscription the purchase handler builds on such a host, before it hands it to
  \<open>updateUser\<close>.  With every reading of the clock at the last millisecond of
  31 January 2025 (day 20119), a tier of 30 days ends on 2 March (day 20149); with the
  second reading one millisecond later, in February, it ends on 2 April (day 20180).
\<close>

lemma newSubscription_run:
  "newSubscription shopEnv monthly shopClock =
     \<lparr>tierId = Some ''t1'', startDate = Some (DateObject 1738367999999),
      endDate = Some (DateObject 1740959999999), isActive = True\<rparr>
   \<and> Day 1738367999999 + durationDays monthly = 20149
   \<and> Day 1740959999999 = 20149
   \<and> newSubscription shopEnv monthly midnightClock =
       \<lparr>tierId = Some ''t1'', startDate = Some (DateObject 1738367999999),
        endDate = Some (DateObject 1743552000000), isActive = True\<rparr>
   \<and> Day 1743552000000 = 20180"
  by code_simp

end
